theory Spec2Isabelle
  imports Complex_Main "HOL-Library.AList"
begin

section \<open>JavaScript values, errors and promise outcomes\<close>

text \<open>
  Strings are lists of 8-bit characters. A rejected promise or a thrown exception is the
  left injection of a sum; a resolved promise is the right injection.
\<close>

datatype jsnum = Fin rat | NaN | PosInf | NegInf

datatype jsval =
    VUndef
  | VNull
  | VBool bool
  | VNum jsnum
  | VStr string
  | VArr "jsval list"
  | VObj "(string \<times> jsval) list"
  | VStream string

text \<open>
  Errors: an Error with a numeric code, a TypeError, a plain Error, and an error of the
  backend with its string code (\<^verbatim>\<open>ENOENT\<close>, ...). \<open>Unsettled\<close> stands for a promise that is
  never resolved or rejected.
\<close>

datatype error =
    HttpError nat string
  | TypeError string
  | PlainError string
  | SysError string string
  | Unsettled

text \<open>A text between single quotes, as the messages of the sources print names.\<close>

definition quoted :: "string \<Rightarrow> string" where
  "quoted s = CHR 0x27 # s @ [CHR 0x27]"

text \<open>\<^verbatim>\<open>createError(code, message)\<close>: an Error carrying a numeric code.\<close>

definition createError :: "nat \<Rightarrow> string \<Rightarrow> error" where
  "createError code message = HttpError code message"

text \<open>The truthiness test of JavaScript, \<^verbatim>\<open>Boolean(v)\<close>.\<close>

fun truthy :: "jsval \<Rightarrow> bool" where
  "truthy VUndef = False"
| "truthy VNull = False"
| "truthy (VBool b) = b"
| "truthy (VNum (Fin q)) = (q \<noteq> 0)"
| "truthy (VNum NaN) = False"
| "truthy (VNum PosInf) = True"
| "truthy (VNum NegInf) = True"
| "truthy (VStr s) = (s \<noteq> [])"
| "truthy (VArr xs) = True"
| "truthy (VObj kvs) = True"
| "truthy (VStream c) = True"

section \<open>Mountpoints and requests\<close>

text \<open>
  An entry of \<^verbatim>\<open>attributes.groups\<close> is a plain group name or a map from method names to
  group lists.
\<close>

datatype group_entry = Named string | MethodMap "(string \<times> string list) list"

record attributes =
  readOnly :: bool
  groups :: "group_entry list option"
  strictGroups :: "bool option"
  searchable :: "bool option"
  ranges :: "bool option"
  attr_adapter :: "string option"
  attr_root :: string

record mount =
  name :: string
  root :: string
  adapter :: "string option"
  attributes :: attributes

record user =
  username :: string
  user_groups :: "string list"

record session =
  session_user :: user

text \<open>
  An uploaded file, \<^verbatim>\<open>req.files.upload\<close>: a stream, or a temporary file with its path
  (when the parser gave one) and its content.
\<close>

datatype upload = UploadStream string | UploadFile "string option" string

text \<open>
  The routes run behind the authentication middleware, so the session and its user are
  present.
\<close>

record request =
  req_session :: session
  req_fields :: "(string \<times> jsval) list"
  range_header :: "string option"
  files_upload :: "upload option"

text \<open>
  The \<^verbatim>\<open>readOnly\<close> argument of the permission gate: a boolean, or a predicate that maps the
  request to a target address.
\<close>

datatype ro_param = RoBool bool | RoFun "request \<Rightarrow> string"

section \<open>Utilities of the VFS (utils/vfs.js)\<close>

text \<open>\<^verbatim>\<open>getPrefix = (path) => String(path).split(":")[0]\<close>\<close>

definition getPrefix :: "string \<Rightarrow> string" where
  "getPrefix path = takeWhile (\<lambda>c. c \<noteq> CHR '':'') path"

text \<open>
  \<^verbatim>\<open>validateAll(arr, compare, strict = true)\<close>: \<^verbatim>\<open>every\<close> when strict, \<^verbatim>\<open>some\<close>
  otherwise; an omitted \<^verbatim>\<open>strict\<close> (\<open>None\<close>) takes the default.
\<close>

definition validateAll :: "string list \<Rightarrow> string list \<Rightarrow> bool option \<Rightarrow> bool" where
  "validateAll arr compare strict =
     (if (case strict of None \<Rightarrow> True | Some b \<Rightarrow> b)
      then list_all (\<lambda>g. g \<in> set compare) arr
      else list_ex (\<lambda>g. g \<in> set compare) arr)"

fun named_of :: "group_entry list \<Rightarrow> string list" where
  "named_of [] = []"
| "named_of (Named g # gs) = g # named_of gs"
| "named_of (MethodMap m # gs) = named_of gs"

definition validateNamedGroups :: "group_entry list \<Rightarrow> string list \<Rightarrow> bool option \<Rightarrow> bool" where
  "validateNamedGroups gs userGroups strict =
     (let namedGroups = named_of gs
      in if namedGroups \<noteq> [] then validateAll namedGroups userGroups strict else True)"

text \<open>The first entry that is a method map having the method as a key.\<close>

fun find_method_groups :: "group_entry list \<Rightarrow> string \<Rightarrow> (string \<times> string list) list option" where
  "find_method_groups [] method = None"
| "find_method_groups (Named g # gs) method = find_method_groups gs method"
| "find_method_groups (MethodMap m # gs) method =
     (if method \<in> fst ` set m then Some m else find_method_groups gs method)"

definition validateMethodGroups ::
  "group_entry list \<Rightarrow> string list \<Rightarrow> string \<Rightarrow> bool option \<Rightarrow> bool" where
  "validateMethodGroups gs userGroups method strict =
     (case find_method_groups gs method of
        Some methodGroups \<Rightarrow>
          validateAll (case map_of methodGroups method of Some l \<Rightarrow> l | None \<Rightarrow> [])
            userGroups strict
      | None \<Rightarrow> True)"

definition validateGroups :: "string list \<Rightarrow> string \<Rightarrow> mount \<Rightarrow> bool option \<Rightarrow> bool" where
  "validateGroups userGroups method mountpoint strict =
     (let gs = (case groups (attributes mountpoint) of None \<Rightarrow> [] | Some l \<Rightarrow> l)
      in if gs \<noteq> []
         then (let namedValid = validateNamedGroups gs userGroups strict;
                   methodValid = validateMethodGroups gs userGroups method strict
               in namedValid \<and> methodValid)
         else True)"

text \<open>
  \<^verbatim>\<open>checkMountpointPermission(req, res, method, readOnly, strict)({mount})\<close>. The promise
  resolves \<^verbatim>\<open>true\<close> or rejects with a 403 error.
\<close>

definition ro_truthy :: "ro_param \<Rightarrow> bool" where
  "ro_truthy r = (case r of RoBool b \<Rightarrow> b | RoFun f \<Rightarrow> True)"

definition checkMountpointPermission ::
  "request \<Rightarrow> string \<Rightarrow> ro_param \<Rightarrow> bool option \<Rightarrow> mount \<Rightarrow> error + bool" where
  "checkMountpointPermission req method ro strict mnt =
     (let userGroups = user_groups (session_user (req_session req));
          failed = (ro_truthy ro \<and> readOnly (attributes mnt) \<and>
                    (case ro of RoFun f \<Rightarrow> getPrefix (f req) = name mnt | RoBool b \<Rightarrow> b))
      in if failed
         then Inl (createError 403 (''Mountpoint '' @ quoted (name mnt) @ '' is read-only''))
         else if validateGroups userGroups method mnt strict
         then Inr True
         else Inl (createError 403
                (''Permission was denied for '' @ quoted method @ '' in ''
                 @ quoted (name mnt))))"

text \<open>
  \<^verbatim>\<open>mountpointResolver(core)(path)\<close>. The service \<^verbatim>\<open>core.make("meeseOS/vfs")\<close> holds the
  adapters by name and the configured mountpoints. An adapter is an object of methods; the
  methods of this repository read only \<^verbatim>\<open>vfs.mount\<close> of the resolved target they are given,
  so a method takes the list of mounts it is bound to, then the positional arguments, and
  runs on the backend state \<open>'w\<close>. Objects are compared by identity, which is \<open>adapter_id\<close>.
\<close>

type_synonym 'w adapter_method =
  "mount list \<Rightarrow> jsval list \<Rightarrow> 'w \<Rightarrow> (error + jsval) \<times> 'w"

record 'w vfs_adapter =
  adapter_id :: nat
  methods :: "string \<Rightarrow> 'w adapter_method option"

record 'w vfs_service =
  adapters :: "string \<Rightarrow> 'w vfs_adapter option"
  mountpoints :: "mount list"

record 'w resolved =
  r_mount :: mount
  r_adapter :: "'w vfs_adapter option"

definition mountpointResolver :: "'w vfs_service \<Rightarrow> string \<Rightarrow> error + 'w resolved" where
  "mountpointResolver svc path =
     (let prefix = getPrefix path
      in case find (\<lambda>m. name m = prefix) (mountpoints svc) of
           None \<Rightarrow> Inl (createError 403
                     (''Mountpoint not found for '' @ quoted prefix))
         | Some m \<Rightarrow>
             Inr \<lparr> r_mount = m,
                   r_adapter = (case adapter m of
                                  None \<Rightarrow> adapters svc ''system''
                                | Some a \<Rightarrow> if a = [] then adapters svc ''system''
                                           else adapters svc a) \<rparr>)"

subsection \<open>Strings\<close>

text \<open>\<^verbatim>\<open>s.split(c)\<close> for a one-character separator, and \<^verbatim>\<open>xs.join(sep)\<close>.\<close>

fun split_on :: "char \<Rightarrow> string \<Rightarrow> string list" where
  "split_on c [] = [[]]"
| "split_on c (x # xs) =
     (if x = c then [] # split_on c xs
      else (case split_on c xs of [] \<Rightarrow> [[x]] | y # ys \<Rightarrow> (x # y) # ys))"

fun join :: "string \<Rightarrow> string list \<Rightarrow> string" where
  "join sep [] = []"
| "join sep [x] = x"
| "join sep (x # y # ys) = x @ sep @ join sep (y # ys)"

text \<open>\<^verbatim>\<open>s.replace(/\/+/g, "/")\<close>: every run of slashes becomes one slash.\<close>

fun collapse_slashes :: "string \<Rightarrow> string" where
  "collapse_slashes [] = []"
| "collapse_slashes [a] = [a]"
| "collapse_slashes (a # b # cs) =
     (if a = CHR ''/'' \<and> b = CHR ''/'' then collapse_slashes (b # cs)
      else a # collapse_slashes (b # cs))"

text \<open>\<^verbatim>\<open>s.replace(pat, by)\<close> for a string pattern: the first occurrence only.\<close>

fun replace_first :: "string \<Rightarrow> string \<Rightarrow> string \<Rightarrow> string" where
  "replace_first pat by [] = (if pat = [] then by else [])"
| "replace_first pat by (c # cs) =
     (if take (length pat) (c # cs) = pat then by @ drop (length pat) (c # cs)
      else c # replace_first pat by cs)"

text \<open>The class \<^verbatim>\<open>[\w-_]\<close>: letters, digits, the underscore and the hyphen.\<close>

definition is_word_char :: "char \<Rightarrow> bool" where
  "is_word_char c =
     (let n = (of_char c :: nat)
      in (65 \<le> n \<and> n \<le> 90) \<or> (97 \<le> n \<and> n \<le> 122) \<or> (48 \<le> n \<and> n \<le> 57)
         \<or> c = CHR ''_'' \<or> c = CHR ''-'')"

text \<open>The line terminators, which the dot of a regular expression does not match.\<close>

definition is_line_terminator :: "char \<Rightarrow> bool" where
  "is_line_terminator c = (c = CHR 0x0A \<or> c = CHR 0x0D)"

subsection \<open>The file system\<close>

text \<open>
  The backend of the system adapter is a tree of directories and files; a file holds its
  bytes. A real path is split at the slashes into the names that lead to a node.
\<close>

datatype node = File string | Dir "(string \<times> node) list"

definition segments :: "string \<Rightarrow> string list" where
  "segments p = filter (\<lambda>s. s \<noteq> []) (split_on CHR ''/'' p)"

text \<open>\<^verbatim>\<open>fs.stat\<close>: the node at a path, or the code of the error.\<close>

fun stat_node :: "node \<Rightarrow> string list \<Rightarrow> string + node" where
  "stat_node n [] = Inr n"
| "stat_node (File c) (s # ss) = Inl ''ENOTDIR''"
| "stat_node (Dir es) (s # ss) =
     (case map_of es s of None \<Rightarrow> Inl ''ENOENT'' | Some n \<Rightarrow> stat_node n ss)"

text \<open>
  Storing a node at a path whose parent directory exists (\<open>None\<close> otherwise), and removing
  the node at a path with everything below it.
\<close>

fun put :: "string list \<Rightarrow> node \<Rightarrow> node \<Rightarrow> node option" where
  "put [] new n = Some new"
| "put (s # ss) new (File c) = None"
| "put (s # ss) new (Dir es) =
     (if ss = [] then Some (Dir (AList.update s new es))
      else (case map_of es s of
              None \<Rightarrow> None
            | Some n \<Rightarrow> (case put ss new n of
                          None \<Rightarrow> None
                        | Some n' \<Rightarrow> Some (Dir (AList.update s n' es)))))"

fun remove :: "string list \<Rightarrow> node \<Rightarrow> node" where
  "remove [] n = Dir []"
| "remove (s # ss) (File c) = File c"
| "remove (s # ss) (Dir es) =
     (if ss = [] then Dir (AList.delete s es)
      else (case map_of es s of
              None \<Rightarrow> Dir es
            | Some n \<Rightarrow> Dir (AList.update s (remove ss n) es)))"

subsection \<open>Library functions\<close>

text \<open>
  Functions of Node.js and of third-party packages that the sources call. They are outside
  the repository and are parameters of the model: \<^verbatim>\<open>sanitize-filename\<close>,
  \<^verbatim>\<open>JSON.parse\<close> (\<open>None\<close> when it throws), \<^verbatim>\<open>parseInt(s, 10)\<close>, \<^verbatim>\<open>path.join\<close>,
  \<^verbatim>\<open>String(v)\<close>, \<^verbatim>\<open>path.basename\<close>, \<^verbatim>\<open>path.parse(p).dir\<close>, \<^verbatim>\<open>encodeURIComponent\<close>, the
  check of an entry name by \<^verbatim>\<open>yazl\<close> (\<open>Some\<close> the error it throws), the bytes of a zip
  archive with the given entries (name and content), and \<^verbatim>\<open>extract-zip\<close> (archive path,
  target directory, file system).

  The tree of the file system holds names and bytes only. Whether the bytes of a file can
  be read is a parameter as well: \<open>read_error\<close> gives the error that the stream of
  \<^verbatim>\<open>fs.createReadStream(path)\<close> emits for a path (a file that the server may not read, a
  failing device), \<open>None\<close> when the bytes arrive. \<open>zip_stalled\<close> gives the bytes that
  \<^verbatim>\<open>yazl\<close> has written to its output when the stream of an entry has failed, from the
  entries ahead of that one.
\<close>

record lib =
  sanitizeFilename :: "string \<Rightarrow> string"
  json_parse :: "string \<Rightarrow> jsval option"
  parseInt :: "string \<Rightarrow> jsnum"
  js_String :: "jsval \<Rightarrow> string"
  path_join :: "string \<Rightarrow> string \<Rightarrow> string"
  path_basename :: "string \<Rightarrow> string"
  path_dirname :: "string \<Rightarrow> string"
  encodeURIComponent :: "string \<Rightarrow> string"
  zip_check_name :: "string \<Rightarrow> error option"
  zip_encode :: "(string \<times> string) list \<Rightarrow> string"
  extract_zip :: "string \<Rightarrow> string \<Rightarrow> node \<Rightarrow> error + node"
  read_error :: "string \<Rightarrow> error option"
  zip_stalled :: "(string \<times> string) list \<Rightarrow> string"

subsection \<open>sanitize\<close>

text \<open>
  The match of \<^verbatim>\<open>/^([\w-_]+):+(.*)/\<close>: the name is the longest run of word characters, at
  least one colon follows, all the colons are skipped, and the rest runs up to the first
  line terminator. \<open>None\<close> when the expression does not match.
\<close>

definition match_address :: "string \<Rightarrow> (string \<times> string) option" where
  "match_address s =
     (let nm = takeWhile is_word_char s;
          rest = dropWhile is_word_char s
      in if nm = [] \<or> rest = [] \<or> hd rest \<noteq> CHR '':'' then None
         else Some (nm, takeWhile (\<lambda>c. \<not> is_line_terminator c)
                          (dropWhile (\<lambda>c. c = CHR '':'') rest)))"

text \<open>
  The branch of \<^verbatim>\<open>sanitize\<close> for a single string. Without a match both \<^verbatim>\<open>name\<close> and
  \<^verbatim>\<open>str\<close> are undefined and \<^verbatim>\<open>str.split\<close> throws a TypeError.
\<close>

definition sanitizeString :: "lib \<Rightarrow> string \<Rightarrow> error + string" where
  "sanitizeString L path =
     (case match_address (collapse_slashes path) of
        None \<Rightarrow> Inl (TypeError ''Cannot read properties of undefined (reading split)'')
      | Some (nm, str) \<Rightarrow>
          (let sane = collapse_slashes
                        (join ''/'' (map (sanitizeFilename L) (split_on CHR ''/'' str)))
           in Inr (nm @ '':'' @ sane)))"

text \<open>
  A sanitized target is a string or, for an array of paths, an array of sanitized targets.
  Any other value has no \<^verbatim>\<open>replace\<close> method, which is a TypeError.
\<close>

datatype target = TStr string | TArr "target list"

fun collect :: "(error + 'a) list \<Rightarrow> error + 'a list" where
  "collect [] = Inr []"
| "collect (Inl e # rs) = Inl e"
| "collect (Inr x # rs) = (case collect rs of Inl e \<Rightarrow> Inl e | Inr xs \<Rightarrow> Inr (x # xs))"

fun sanitize :: "lib \<Rightarrow> jsval \<Rightarrow> error + target" where
  "sanitize L (VArr ps) =
     (case collect (map (sanitize L) ps) of Inl e \<Rightarrow> Inl e | Inr ts \<Rightarrow> Inr (TArr ts))"
| "sanitize L (VStr s) =
     (case sanitizeString L s of Inl e \<Rightarrow> Inl e | Inr t \<Rightarrow> Inr (TStr t))"
| "sanitize L v = Inl (TypeError ''path.replace is not a function'')"

text \<open>\<^verbatim>\<open>String(target)\<close>: an array prints its elements separated by commas.\<close>

fun target_string :: "target \<Rightarrow> string" where
  "target_string (TStr s) = s"
| "target_string (TArr ts) = join '','' (map target_string ts)"

fun target_val :: "target \<Rightarrow> jsval" where
  "target_val (TStr s) = VStr s"
| "target_val (TArr ts) = VArr (map target_val ts)"

section \<open>The dispatcher (vfs.js)\<close>

subsection \<open>Result shaping and request getters\<close>

definition respondNumber :: "jsval \<Rightarrow> jsval" where
  "respondNumber result = (case result of VNum n \<Rightarrow> VNum n | _ \<Rightarrow> VNum (Fin (- 1)))"

definition respondBoolean :: "jsval \<Rightarrow> jsval" where
  "respondBoolean result = (case result of VBool b \<Rightarrow> VBool b | _ \<Rightarrow> VBool (truthy result))"

definition field :: "request \<Rightarrow> string \<Rightarrow> jsval" where
  "field req k = (case map_of (req_fields req) k of None \<Rightarrow> VUndef | Some v \<Rightarrow> v)"

text \<open>
  \<^verbatim>\<open>streamFromRequest\<close>: the upload is a stream already, or a temporary file that is
  opened for reading.
\<close>

definition streamFromRequest :: "upload option \<Rightarrow> error + jsval" where
  "streamFromRequest u =
     (case u of
        None \<Rightarrow> Inl (TypeError ''Cannot read properties of undefined (reading filepath)'')
      | Some (UploadStream c) \<Rightarrow> Inr (VStream c)
      | Some (UploadFile p c) \<Rightarrow>
          (case p of
             None \<Rightarrow> Inl (PlainError ''File path is empty or undefined.'')
           | Some fp \<Rightarrow> if fp = [] then Inl (PlainError ''File path is empty or undefined.'')
                        else Inr (VStream c)))"

type_synonym getter = "lib \<Rightarrow> request \<Rightarrow> error + target \<times> jsval list"

definition requestSelection :: getter where
  "requestSelection L req =
     (case sanitize L (field req ''selection'') of Inl e \<Rightarrow> Inl e | Inr t \<Rightarrow> Inr (t, []))"

definition requestPath :: getter where
  "requestPath L req =
     (case sanitize L (field req ''path'') of Inl e \<Rightarrow> Inl e | Inr t \<Rightarrow> Inr (t, []))"

definition requestSearch :: getter where
  "requestSearch L req =
     (case sanitize L (field req ''root'') of
        Inl e \<Rightarrow> Inl e
      | Inr t \<Rightarrow> Inr (t, [field req ''pattern'']))"

definition requestFile :: getter where
  "requestFile L req =
     (case sanitize L (field req ''path'') of
        Inl e \<Rightarrow> Inl e
      | Inr t \<Rightarrow> (case streamFromRequest (files_upload req) of Inl e \<Rightarrow> Inl e | Inr st \<Rightarrow> Inr (t, [st])))"

definition requestCross :: "lib \<Rightarrow> request \<Rightarrow> error + target \<times> target" where
  "requestCross L req =
     (case sanitize L (field req ''from'') of
        Inl e \<Rightarrow> Inl e
      | Inr f \<Rightarrow> (case sanitize L (field req ''to'') of Inl e \<Rightarrow> Inl e | Inr t \<Rightarrow> Inr (f, t)))"

subsection \<open>Options\<close>

text \<open>
  \<^verbatim>\<open>parseRangeHeader\<close>: the text \<^verbatim>\<open>bytes=\<close> is removed once, the rest is split at the
  hyphens, and the end is undefined when its text is missing or empty.
\<close>

definition parseRangeHeader :: "lib \<Rightarrow> string \<Rightarrow> jsval" where
  "parseRangeHeader L rng =
     (let parts = split_on CHR ''-'' (replace_first ''bytes='' [] rng);
          start = parseInt L (hd parts);
          end = (case tl parts of
                   [] \<Rightarrow> VUndef
                 | pend # _ \<Rightarrow> if pend = [] then VUndef else VNum (parseInt L pend))
      in VArr [VNum start, end])"

text \<open>The own enumerable properties that an object spread \<^verbatim>\<open>{...v}\<close> copies.\<close>

fun string_of_nat :: "nat \<Rightarrow> string" where
  "string_of_nat n =
     (if n < 10 then [char_of (48 + n)]
      else string_of_nat (n div 10) @ [char_of (48 + n mod 10)])"

declare string_of_nat.simps [simp del]

fun indexed :: "nat \<Rightarrow> jsval list \<Rightarrow> (string \<times> jsval) list" where
  "indexed n [] = []"
| "indexed n (v # vs) = (string_of_nat n, v) # indexed (Suc n) vs"

definition own_props :: "jsval \<Rightarrow> (string \<times> jsval) list" where
  "own_props v =
     (case v of
        VObj kvs \<Rightarrow> kvs
      | VArr xs \<Rightarrow> indexed 0 xs
      | VStr s \<Rightarrow> indexed 0 (map (\<lambda>c. VStr [c]) s)
      | _ \<Rightarrow> [])"

text \<open>Assignment to a property: an existing key keeps its place, a new key goes last.\<close>

fun set_prop :: "string \<Rightarrow> jsval \<Rightarrow> (string \<times> jsval) list \<Rightarrow> (string \<times> jsval) list" where
  "set_prop k v [] = [(k, v)]"
| "set_prop k v ((k', v') # kvs) =
     (if k' = k then (k, v) # kvs else (k', v') # set_prop k v kvs)"

definition get_prop :: "(string \<times> jsval) list \<Rightarrow> string \<Rightarrow> jsval" where
  "get_prop kvs k = (case map_of kvs k of None \<Rightarrow> VUndef | Some v \<Rightarrow> v)"

definition session_val :: "session \<Rightarrow> jsval" where
  "session_val s =
     VObj [(''user'', VObj [(''username'', VStr (username (session_user s))),
                            (''groups'', VArr (map VStr (user_groups (session_user s))))])]"

definition is_object :: "jsval \<Rightarrow> bool" where
  "is_object v = (case v of VObj _ \<Rightarrow> True | VArr _ \<Rightarrow> True | VStream _ \<Rightarrow> True | _ \<Rightarrow> False)"

text \<open>
  \<^verbatim>\<open>createOptions(req)\<close>. The result is the property list of the object
  \<^verbatim>\<open>{...result, session}\<close>. The assignment \<^verbatim>\<open>result.range = ...\<close> has no effect when
  \<^verbatim>\<open>result\<close> is a primitive value.
\<close>

definition createOptions :: "lib \<Rightarrow> request \<Rightarrow> (string \<times> jsval) list" where
  "createOptions L req =
     (let options = field req ''options'';
          session = session_val (req_session req);
          result0 = (if truthy options then options else VObj []);
          result1 = (case options of
                       VStr s \<Rightarrow>
                         (case json_parse L s of
                            None \<Rightarrow> result0
                          | Some v \<Rightarrow> if truthy v then v else VObj [])
                     | _ \<Rightarrow> result0);
          props = (case range_header req of
                     None \<Rightarrow> own_props result1
                   | Some rng \<Rightarrow>
                       if rng \<noteq> [] \<and> is_object result1
                       then set_prop ''range'' (parseRangeHeader L rng) (own_props result1)
                       else own_props result1)
      in set_prop ''session'' session props)"

subsection \<open>Execution state\<close>

text \<open>
  A request runs on the backend state and leaves a log of the adapter methods it invoked
  (adapter identity and method name, in order) and of what it wrote to the response.
  For the ranged response only the status, the descriptor and the range it is computed from
  are recorded.
\<close>

datatype res_event = WriteHead206 jsval jsval | AppendHeader string jsval

record 'w exec =
  world :: 'w
  calls :: "(nat \<times> string) list"
  response :: "res_event list"

definition invoke ::
  "'w vfs_adapter \<Rightarrow> string \<Rightarrow> 'w adapter_method \<Rightarrow> mount list \<Rightarrow> jsval list \<Rightarrow> 'w exec
   \<Rightarrow> (error + jsval) \<times> 'w exec" where
  "invoke a m f ms args ex =
     (let (r, w) = f ms args (world ex)
      in (r, ex\<lparr> world := w, calls := calls ex @ [(adapter_id a, m)] \<rparr>))"

text \<open>
  \<^verbatim>\<open>vfsMethodWrapper(m)\<close>: an adapter without the method rejects with an Error; a missing
  adapter object is a TypeError.
\<close>

definition vfsMethodWrapper ::
  "'w resolved \<Rightarrow> string \<Rightarrow> jsval list \<Rightarrow> 'w exec \<Rightarrow> (error + jsval) \<times> 'w exec" where
  "vfsMethodWrapper found m args ex =
     (case r_adapter found of
        None \<Rightarrow> (Inl (TypeError ''Cannot read properties of undefined''), ex)
      | Some a \<Rightarrow>
          (case methods a m of
             None \<Rightarrow> (Inl (PlainError (''Adapter does not support '' @ m)), ex)
           | Some f \<Rightarrow> invoke a m f [r_mount found] args ex))"

text \<open>A direct call \<^verbatim>\<open>adapter[m](...)\<close>: a missing method is a TypeError.\<close>

definition callMethod ::
  "'w resolved \<Rightarrow> string \<Rightarrow> mount list \<Rightarrow> jsval list \<Rightarrow> 'w exec
   \<Rightarrow> (error + jsval) \<times> 'w exec" where
  "callMethod found m ms args ex =
     (case r_adapter found of
        None \<Rightarrow> (Inl (TypeError ''Cannot read properties of undefined''), ex)
      | Some a \<Rightarrow>
          (case methods a m of
             None \<Rightarrow> (Inl (TypeError (m @ '' is not a function'')), ex)
           | Some f \<Rightarrow> invoke a m f ms args ex))"

text \<open>Reading a property of a value: undefined and null have none, which is a TypeError.\<close>

definition val_prop :: "jsval \<Rightarrow> string \<Rightarrow> error + jsval" where
  "val_prop v k =
     (case v of
        VUndef \<Rightarrow> Inl (TypeError ''Cannot read properties of undefined'')
      | VNull \<Rightarrow> Inl (TypeError ''Cannot read properties of null'')
      | VObj kvs \<Rightarrow> Inr (get_prop kvs k)
      | _ \<Rightarrow> Inr VUndef)"

subsection \<open>Requests with one target\<close>

text \<open>The headers of a \<^verbatim>\<open>readfile\<close> response, after the adapter has returned.\<close>

definition readfileHeaders ::
  "lib \<Rightarrow> 'w resolved \<Rightarrow> target \<Rightarrow> jsval list \<Rightarrow> (string \<times> jsval) list \<Rightarrow> 'w exec
   \<Rightarrow> error option \<times> 'w exec" where
  "readfileHeaders L found tgt args options ex =
     (let attrs = attributes (r_mount found);
          ranges = ((case attr_adapter attrs of None \<Rightarrow> True
                     | Some a \<Rightarrow> a = [] \<or> a = ''system'') \<or> ranges attrs = Some True);
          (sr, ex1) = vfsMethodWrapper found ''stat'' args ex;
          stat = (case sr of Inl e \<Rightarrow> VObj [] | Inr v \<Rightarrow> v);
          step1 =
            (if ranges \<and> truthy (get_prop options ''range'')
             then (case val_prop stat ''size'' of
                     Inl e \<Rightarrow> (None, ex1)
                   | Inr sz \<Rightarrow>
                       if truthy sz
                       then (None, ex1\<lparr> response := response ex1 @
                                        [WriteHead206 stat (get_prop options ''range'')] \<rparr>)
                       else (None, ex1))
             else (case val_prop stat ''mime'' of
                     Inl e \<Rightarrow> (Some e, ex1)
                   | Inr mime \<Rightarrow>
                       if truthy mime
                       then (None, ex1\<lparr> response := response ex1 @
                                        [AppendHeader ''Content-Type'' mime] \<rparr>)
                       else (None, ex1)))
      in case step1 of
           (Some e, ex2) \<Rightarrow> (Some e, ex2)
         | (None, ex2) \<Rightarrow>
             if truthy (get_prop options ''download'')
             then (case tgt of
                     TArr ts \<Rightarrow> (Some (TypeError ''The path argument must be of type string''), ex2)
                   | TStr p \<Rightarrow>
                       (None, ex2\<lparr> response := response ex2 @
                                 [AppendHeader ''Content-Disposition''
                                    (VStr (''attachment; filename*=utf-8'' @ [CHR 0x27, CHR 0x27]
                                           @ encodeURIComponent L (path_basename L p)))] \<rparr>))
             else (None, ex2))"

text \<open>
  \<^verbatim>\<open>createRequestFactory(findMountpoint)(getter, method, readOnly, respond)(req, res)\<close>.
  The options are built and the getter runs before the mountpoint is looked up; an
  exception of the getter rejects the request.
\<close>

definition createRequest ::
  "lib \<Rightarrow> 'w vfs_service \<Rightarrow> getter \<Rightarrow> string \<Rightarrow> ro_param \<Rightarrow> (jsval \<Rightarrow> jsval) option
   \<Rightarrow> request \<Rightarrow> 'w exec \<Rightarrow> (error + jsval) \<times> 'w exec" where
  "createRequest L svc getter method ro respond req ex =
     (let options = createOptions L req
      in case getter L req of
           Inl e \<Rightarrow> (Inl e, ex)
         | Inr (tgt, rest) \<Rightarrow>
            (case mountpointResolver svc (target_string tgt) of
               Inl e \<Rightarrow> (Inl e, ex)
             | Inr found \<Rightarrow>
                (let attrs = attributes (r_mount found);
                     strict = (strictGroups attrs \<noteq> Some False)
                 in if method = ''search'' \<and> searchable attrs = Some False
                    then (Inr (VArr []), ex)
                    else
                      (case checkMountpointPermission req method ro (Some strict) (r_mount found) of
                         Inl e \<Rightarrow> (Inl e, ex)
                       | Inr ok \<Rightarrow>
                          (let args = target_val tgt # rest @ [VObj options];
                               (r, ex1) = vfsMethodWrapper found method args ex
                           in case r of
                                Inl e \<Rightarrow> (Inl e, ex1)
                              | Inr result \<Rightarrow>
                                 (let (herr, ex2) =
                                        (if method = ''readfile''
                                         then readfileHeaders L found tgt args options ex1
                                         else (None, ex1))
                                  in case herr of
                                       Some e \<Rightarrow> (Inl e, ex2)
                                     | None \<Rightarrow>
                                        (Inr (case respond of None \<Rightarrow> result
                                              | Some f \<Rightarrow> f result), ex2)))))))"

subsection \<open>Requests with a source and a destination\<close>

text \<open>
  \<^verbatim>\<open>createCrossRequestFactory(findMountpoint)(getter, method)(req, res)\<close>, for \<^verbatim>\<open>copy\<close> and
  \<^verbatim>\<open>rename\<close>.
\<close>

definition createCrossRequest ::
  "lib \<Rightarrow> 'w vfs_service \<Rightarrow> string \<Rightarrow> request \<Rightarrow> 'w exec \<Rightarrow> (error + jsval) \<times> 'w exec" where
  "createCrossRequest L svc method req ex =
     (case requestCross L req of
        Inl e \<Rightarrow> (Inl e, ex)
      | Inr (from, to) \<Rightarrow>
        (let options = VObj (createOptions L req)
         in case mountpointResolver svc (target_string from) of
              Inl e \<Rightarrow> (Inl e, ex)
            | Inr srcMount \<Rightarrow>
          (case mountpointResolver svc (target_string to) of
              Inl e \<Rightarrow> (Inl e, ex)
            | Inr destMount \<Rightarrow>
          (let sameAdapter = (map_option adapter_id (r_adapter srcMount)
                              = map_option adapter_id (r_adapter destMount));
               srcStrict = (strictGroups (attributes (r_mount srcMount)) \<noteq> Some False);
               destStrict = (strictGroups (attributes (r_mount destMount)) \<noteq> Some False)
           in case checkMountpointPermission req ''readfile'' (RoBool False) (Some srcStrict)
                     (r_mount srcMount) of
                Inl e \<Rightarrow> (Inl e, ex)
              | Inr ok1 \<Rightarrow>
             (case checkMountpointPermission req ''writefile'' (RoBool True) (Some destStrict)
                     (r_mount destMount) of
                Inl e \<Rightarrow> (Inl e, ex)
              | Inr ok2 \<Rightarrow>
                if sameAdapter
                then (case callMethod srcMount method [r_mount srcMount, r_mount destMount]
                             [target_val from, target_val to, options] ex of
                        (Inl e, ex1) \<Rightarrow> (Inl e, ex1)
                      | (Inr result, ex1) \<Rightarrow> (Inr (VBool (truthy result)), ex1))
                else
                  (case callMethod srcMount ''readfile'' [r_mount srcMount]
                          [target_val from, options] ex of
                     (Inl e, ex1) \<Rightarrow> (Inl e, ex1)
                   | (Inr stream, ex1) \<Rightarrow>
                  (case callMethod destMount ''writefile'' [r_mount destMount]
                          [target_val to, stream, options] ex1 of
                     (Inl e, ex2) \<Rightarrow> (Inl e, ex2)
                   | (Inr result, ex2) \<Rightarrow>
                     if method = ''rename''
                     then (case callMethod srcMount ''unlink'' [r_mount srcMount]
                                  [target_val from, options] ex2 of
                             (Inl e, ex3) \<Rightarrow> (Inl e, ex3)
                           | (Inr u, ex3) \<Rightarrow> (Inr (VBool (truthy result)), ex3))
                     else (Inr (VBool (truthy result)), ex2))))))))"

subsection \<open>The routes\<close>

text \<open>The table of \<^verbatim>\<open>vfs(core)\<close>: the handler of each route.\<close>

definition vfs ::
  "lib \<Rightarrow> 'w vfs_service \<Rightarrow> string \<Rightarrow> (request \<Rightarrow> 'w exec \<Rightarrow> (error + jsval) \<times> 'w exec) option"
  where
  "vfs L svc route =
     (if route = ''capabilities'' then Some (createRequest L svc requestPath ''capabilities'' (RoBool False) None)
      else if route = ''realpath'' then Some (createRequest L svc requestPath ''realpath'' (RoBool False) None)
      else if route = ''exists'' then Some (createRequest L svc requestPath ''exists'' (RoBool False) (Some respondBoolean))
      else if route = ''stat'' then Some (createRequest L svc requestPath ''stat'' (RoBool False) None)
      else if route = ''readdir'' then Some (createRequest L svc requestPath ''readdir'' (RoBool False) None)
      else if route = ''readfile'' then Some (createRequest L svc requestPath ''readfile'' (RoBool False) None)
      else if route = ''writefile'' then Some (createRequest L svc requestFile ''writefile'' (RoBool True) (Some respondNumber))
      else if route = ''mkdir'' then Some (createRequest L svc requestPath ''mkdir'' (RoBool True) (Some respondBoolean))
      else if route = ''unlink'' then Some (createRequest L svc requestPath ''unlink'' (RoBool True) (Some respondBoolean))
      else if route = ''touch'' then Some (createRequest L svc requestPath ''touch'' (RoBool True) (Some respondBoolean))
      else if route = ''search'' then Some (createRequest L svc requestSearch ''search'' (RoBool False) None)
      else if route = ''copy'' then Some (createCrossRequest L svc ''copy'')
      else if route = ''rename'' then Some (createCrossRequest L svc ''rename'')
      else if route = ''archive'' then Some (createRequest L svc requestSelection ''archive'' (RoBool False) None)
      else None)"

section \<open>The system adapter (adapters/vfs/system.js)\<close>

text \<open>
  Of the core only the working directory of the process and the configured \<^verbatim>\<open>vfs.root\<close>
  are read.
\<close>

record core =
  cwd :: string
  vfs_root :: "string option"

subsection \<open>Segments and real paths\<close>

text \<open>The class \<^verbatim>\<open>\w\<close>.\<close>

definition is_w_char :: "char \<Rightarrow> bool" where
  "is_w_char c =
     (let n = (of_char c :: nat)
      in (65 \<le> n \<and> n \<le> 90) \<or> (97 \<le> n \<and> n \<le> 122) \<or> (48 \<le> n \<and> n \<le> 57)
         \<or> c = CHR ''_'')"

text \<open>
  \<^verbatim>\<open>matchSegments\<close>: all the matches of \<^verbatim>\<open>/(\{\w+\})/g\<close>, from left to right. The scanner
  holds the word characters read since an opening brace.
\<close>

fun scan_segments :: "string option \<Rightarrow> string \<Rightarrow> string list" where
  "scan_segments st [] = []"
| "scan_segments None (c # cs) =
     (if c = CHR ''{'' then scan_segments (Some []) cs else scan_segments None cs)"
| "scan_segments (Some acc) (c # cs) =
     (if is_w_char c then scan_segments (Some (acc @ [c])) cs
      else if c = CHR ''}'' \<and> acc \<noteq> [] then (''{'' @ acc @ ''}'') # scan_segments None cs
      else if c = CHR ''{'' then scan_segments (Some []) cs
      else scan_segments None cs)"

definition matchSegments :: "string \<Rightarrow> string list" where
  "matchSegments str = scan_segments None str"

text \<open>
  \<^verbatim>\<open>getSegment\<close>: the value of a segment; \<^verbatim>\<open>username\<close> reads \<^verbatim>\<open>session.user.username\<close>,
  which throws when the session or its user is missing. Unknown segments are empty.
\<close>

definition getSegment :: "lib \<Rightarrow> core \<Rightarrow> jsval \<Rightarrow> string \<Rightarrow> error + string" where
  "getSegment L c session seg =
     (if seg = ''root'' then Inr (cwd c)
      else if seg = ''vfs'' then Inr (case vfs_root c of None \<Rightarrow> cwd c | Some r \<Rightarrow> r)
      else if seg = ''username''
      then (case val_prop session ''user'' of
              Inl e \<Rightarrow> Inl e
            | Inr u \<Rightarrow> (case val_prop u ''username'' of
                          Inl e \<Rightarrow> Inl e
                        | Inr n \<Rightarrow> Inr (case n of VStr s \<Rightarrow> s | _ \<Rightarrow> js_String L n)))
      else Inr [])"

text \<open>
  \<^verbatim>\<open>resolveSegments\<close>: each match, in turn, is replaced at its first occurrence in the
  result so far. The replacement text is inserted as it is.
\<close>

fun replace_segments :: "lib \<Rightarrow> core \<Rightarrow> jsval \<Rightarrow> string list \<Rightarrow> string \<Rightarrow> error + string" where
  "replace_segments L c session [] result = Inr result"
| "replace_segments L c session (current # others) result =
     (case getSegment L c session (filter (\<lambda>x. x \<noteq> CHR ''{'' \<and> x \<noteq> CHR ''}'') current) of
        Inl e \<Rightarrow> Inl e
      | Inr v \<Rightarrow> replace_segments L c session others (replace_first current v result))"

definition resolveSegments :: "lib \<Rightarrow> core \<Rightarrow> jsval \<Rightarrow> string \<Rightarrow> error + string" where
  "resolveSegments L c session str = replace_segments L c session (matchSegments str) str"

text \<open>\<^verbatim>\<open>getRealPath(core, session, mount, file)\<close>\<close>

definition getRealPath :: "lib \<Rightarrow> core \<Rightarrow> jsval \<Rightarrow> mount \<Rightarrow> jsval \<Rightarrow> error + string" where
  "getRealPath L c session mnt file =
     (case resolveSegments L c session (attr_root (attributes mnt)) of
        Inl e \<Rightarrow> Inl e
      | Inr rt \<Rightarrow>
          (case file of
             VStr f \<Rightarrow> Inr (path_join L rt (drop (length (root mnt) - 1) f))
           | _ \<Rightarrow> Inl (TypeError ''file.substring is not a function'')))"

text \<open>
  The positional arguments of a method; the options default to \<^verbatim>\<open>{}\<close> when undefined, and
  \<^verbatim>\<open>options.session\<close> is read from them.
\<close>

definition arg :: "jsval list \<Rightarrow> nat \<Rightarrow> jsval" where
  "arg args i = (if i < length args then args ! i else VUndef)"

definition default_options :: "jsval \<Rightarrow> jsval" where
  "default_options v = (case v of VUndef \<Rightarrow> VObj [] | _ \<Rightarrow> v)"

definition realPathOf :: "lib \<Rightarrow> core \<Rightarrow> mount \<Rightarrow> jsval \<Rightarrow> jsval \<Rightarrow> error + string" where
  "realPathOf L c mnt file options =
     (case val_prop (default_options options) ''session'' of
        Inl e \<Rightarrow> Inl e
      | Inr session \<Rightarrow> getRealPath L c session mnt file)"

definition option_of :: "jsval \<Rightarrow> string \<Rightarrow> jsval" where
  "option_of options k =
     (case val_prop (default_options options) k of Inl e \<Rightarrow> VUndef | Inr v \<Rightarrow> v)"

subsection \<open>Methods on one target\<close>

definition realpath :: "lib \<Rightarrow> core \<Rightarrow> mount \<Rightarrow> jsval list \<Rightarrow> node \<Rightarrow> (error + jsval) \<times> node" where
  "realpath L c mnt args fs =
     (case realPathOf L c mnt (arg args 0) (arg args 1) of
        Inl e \<Rightarrow> (Inl e, fs)
      | Inr realPath \<Rightarrow> (Inr (VStr realPath), fs))"

definition capabilities :: "mount \<Rightarrow> jsval list \<Rightarrow> node \<Rightarrow> (error + jsval) \<times> node" where
  "capabilities mnt args fs =
     (Inr (VObj [(''sort'', VBool False), (''pagination'', VBool False)]), fs)"

text \<open>\<^verbatim>\<open>exists\<close>: \<^verbatim>\<open>fs.access\<close> succeeds or fails, and the failure becomes \<^verbatim>\<open>false\<close>.\<close>

definition exists_path :: "lib \<Rightarrow> core \<Rightarrow> mount \<Rightarrow> jsval list \<Rightarrow> node \<Rightarrow> (error + jsval) \<times> node" where
  "exists_path L c mnt args fs =
     (case realPathOf L c mnt (arg args 0) (arg args 1) of
        Inl e \<Rightarrow> (Inl e, fs)
      | Inr realPath \<Rightarrow>
          (case stat_node fs (segments realPath) of
             Inl code \<Rightarrow> (Inr (VBool False), fs)
           | Inr n \<Rightarrow> (Inr (VBool True), fs)))"

text \<open>\<^verbatim>\<open>unlink\<close>: \<^verbatim>\<open>fs.remove\<close> deletes the path with all below it; a missing path is no error.\<close>

definition unlink :: "lib \<Rightarrow> core \<Rightarrow> mount \<Rightarrow> jsval list \<Rightarrow> node \<Rightarrow> (error + jsval) \<times> node" where
  "unlink L c mnt args fs =
     (case realPathOf L c mnt (arg args 0) (arg args 1) of
        Inl e \<Rightarrow> (Inl e, fs)
      | Inr realPath \<Rightarrow> (Inr (VBool True), remove (segments realPath) fs))"

text \<open>
  \<^verbatim>\<open>readfile\<close>: \<^verbatim>\<open>false\<close> for anything but a file, else a stream of the bytes from
  \<^verbatim>\<open>range[0]\<close> to \<^verbatim>\<open>range[1]\<close>, both optional. \<^verbatim>\<open>fs.createReadStream\<close> throws for a bound
  that is not a non-negative integer and for a start after the end.
\<close>

definition stream_bound :: "jsval \<Rightarrow> nat option option" where
  "stream_bound v =
     (case v of
        VUndef \<Rightarrow> Some None
      | VNum (Fin q) \<Rightarrow> if 0 \<le> q \<and> of_int (floor q) = q then Some (Some (nat (floor q))) else None
      | _ \<Rightarrow> None)"

definition createReadStream :: "string \<Rightarrow> jsval \<Rightarrow> jsval \<Rightarrow> error + jsval" where
  "createReadStream content start end =
     (case (stream_bound start, stream_bound end) of
        (Some s, Some e) \<Rightarrow>
          (let from = (case s of None \<Rightarrow> 0 | Some a \<Rightarrow> a)
           in case e of
                None \<Rightarrow> Inr (VStream (drop from content))
              | Some b \<Rightarrow>
                  if s \<noteq> None \<and> b < from then Inl (SysError ''ERR_OUT_OF_RANGE'' ''start'')
                  else Inr (VStream (drop from (take (Suc b) content))))
      | _ \<Rightarrow> Inl (SysError ''ERR_OUT_OF_RANGE'' ''start or end''))"

definition readfile :: "lib \<Rightarrow> core \<Rightarrow> mount \<Rightarrow> jsval list \<Rightarrow> node \<Rightarrow> (error + jsval) \<times> node" where
  "readfile L c mnt args fs =
     (case realPathOf L c mnt (arg args 0) (arg args 1) of
        Inl e \<Rightarrow> (Inl e, fs)
      | Inr realPath \<Rightarrow>
          (case stat_node fs (segments realPath) of
             Inl code \<Rightarrow> (Inl (SysError code realPath), fs)
           | Inr (Dir es) \<Rightarrow> (Inr (VBool False), fs)
           | Inr (File content) \<Rightarrow>
               (let rng = option_of (arg args 1) ''range'';
                    elems = (case (if truthy rng then rng else VArr []) of
                               VArr xs \<Rightarrow> xs | _ \<Rightarrow> [])
                in (createReadStream content (arg elems 0) (arg elems 1), fs))))"

text \<open>
  \<^verbatim>\<open>writefile(file, data, options)\<close>. An existing directory resolves \<^verbatim>\<open>false\<close>. Otherwise the
  file is opened for writing and the data is piped into it; the promise resolves \<^verbatim>\<open>true\<close>
  when the data ends. Data that is no stream makes \<^verbatim>\<open>data.on\<close> throw after the file was
  opened: inside the handler of the \<^verbatim>\<open>stat\<close> result the exception reaches the
  \<^verbatim>\<open>catch\<close> and rejects, inside the \<^verbatim>\<open>catch\<close> itself nothing settles the promise. Nothing
  settles it either when the file cannot be opened.
\<close>

definition writefile :: "lib \<Rightarrow> core \<Rightarrow> mount \<Rightarrow> jsval list \<Rightarrow> node \<Rightarrow> (error + jsval) \<times> node" where
  "writefile L c mnt args fs =
     (case realPathOf L c mnt (arg args 0) (arg args 2) of
        Inl e \<Rightarrow> (Inl e, fs)
      | Inr realPath \<Rightarrow>
          (let data = arg args 1;
               opened = put (segments realPath) (File []) fs
           in case stat_node fs (segments realPath) of
                Inr (Dir es) \<Rightarrow> (Inr (VBool False), fs)
              | Inr (File old) \<Rightarrow>
                  (case opened of
                     None \<Rightarrow> (Inl Unsettled, fs)
                   | Some fs1 \<Rightarrow>
                       (case data of
                          VStream bytes \<Rightarrow>
                            (case put (segments realPath) (File bytes) fs of
                               None \<Rightarrow> (Inl Unsettled, fs)
                             | Some fs2 \<Rightarrow> (Inr (VBool True), fs2))
                        | _ \<Rightarrow> (Inl (TypeError ''data.on is not a function''), fs1)))
              | Inl code \<Rightarrow>
                  if code = ''ENOENT''
                  then (case opened of
                          None \<Rightarrow> (Inl Unsettled, fs)
                        | Some fs1 \<Rightarrow>
                            (case data of
                               VStream bytes \<Rightarrow>
                                 (case put (segments realPath) (File bytes) fs of
                                    None \<Rightarrow> (Inl Unsettled, fs)
                                  | Some fs2 \<Rightarrow> (Inr (VBool True), fs2))
                             | _ \<Rightarrow> (Inl Unsettled, fs1)))
                  else (Inl (SysError code realPath), fs)))"

text \<open>
  \<^verbatim>\<open>mkdir\<close>: \<^verbatim>\<open>fs.mkdir\<close>, where an existing path is forgiven when \<^verbatim>\<open>options.ensure\<close> is
  set.
\<close>

definition mkdir :: "lib \<Rightarrow> core \<Rightarrow> mount \<Rightarrow> jsval list \<Rightarrow> node \<Rightarrow> (error + jsval) \<times> node" where
  "mkdir L c mnt args fs =
     (case realPathOf L c mnt (arg args 0) (arg args 1) of
        Inl e \<Rightarrow> (Inl e, fs)
      | Inr realPath \<Rightarrow>
          (case stat_node fs (segments realPath) of
             Inr n \<Rightarrow>
               if truthy (option_of (arg args 1) ''ensure'') then (Inr (VBool True), fs)
               else (Inl (SysError ''EEXIST'' realPath), fs)
           | Inl code \<Rightarrow>
               if code = ''ENOENT''
               then (case put (segments realPath) (Dir []) fs of
                       None \<Rightarrow> (Inl (SysError ''ENOENT'' realPath), fs)
                     | Some fs1 \<Rightarrow> (Inr (VBool True), fs1))
               else (Inl (SysError code realPath), fs)))"

subsection \<open>Rename\<close>

text \<open>
  \<^verbatim>\<open>fs.rename\<close>: the node moves with all below it. A file does not replace a directory, a
  directory replaces only an empty directory, and a directory does not move below itself.
\<close>

definition fs_rename :: "string list \<Rightarrow> string list \<Rightarrow> node \<Rightarrow> string + node" where
  "fs_rename s d fs =
     (case stat_node fs s of
        Inl code \<Rightarrow> Inl code
      | Inr n \<Rightarrow>
          if s = d then Inr fs
          else if take (length s) d = s then Inl ''EINVAL''
          else
            (let move = (case put d n (remove s fs) of
                           None \<Rightarrow> Inl ''ENOENT'' | Some fs1 \<Rightarrow> Inr fs1)
             in case stat_node fs d of
                  Inr (Dir es) \<Rightarrow>
                    (case n of
                       File content \<Rightarrow> Inl ''EISDIR''
                     | Dir ns \<Rightarrow> if es = [] then move else Inl ''ENOTEMPTY'')
                | Inr (File old) \<Rightarrow>
                    (case n of File content \<Rightarrow> move | Dir ns \<Rightarrow> Inl ''ENOTDIR'')
                | Inl code \<Rightarrow> if code = ''ENOENT'' then move else Inl code))"

text \<open>\<^verbatim>\<open>rename = crossWrapper("rename")\<close>, bound to the source and the destination mount.\<close>

definition rename ::
  "lib \<Rightarrow> core \<Rightarrow> mount \<Rightarrow> mount \<Rightarrow> jsval list \<Rightarrow> node \<Rightarrow> (error + jsval) \<times> node" where
  "rename L c srcMnt destMnt args fs =
     (case realPathOf L c srcMnt (arg args 0) (arg args 2) of
        Inl e \<Rightarrow> (Inl e, fs)
      | Inr realSource \<Rightarrow>
          (case realPathOf L c destMnt (arg args 1) (arg args 2) of
             Inl e \<Rightarrow> (Inl e, fs)
           | Inr realDest \<Rightarrow>
               (case fs_rename (segments realSource) (segments realDest) fs of
                  Inl code \<Rightarrow> (Inl (SysError code realSource), fs)
                | Inr fs1 \<Rightarrow> (Inr (VBool True), fs1))))"

subsection \<open>Archive\<close>

text \<open>\<^verbatim>\<open>s.replace(/\/?$/, "/")\<close>: the path with a slash at its end.\<close>

definition slash_end :: "string \<Rightarrow> string" where
  "slash_end s = (if s \<noteq> [] \<and> last s = CHR ''/'' then s else s @ ''/'')"

text \<open>
  The archive being written is the list of its entries, each with the name it is stored
  under and the read stream of the file: its bytes, or the error that the stream emits.
  \<^verbatim>\<open>addFileToArchive\<close> opens the stream with \<^verbatim>\<open>fs.createReadStream\<close> and names the entry
  by the real path with the first occurrence of the archive's directory removed;
  \<^verbatim>\<open>zipfile.addReadStream\<close> throws for a name it does not accept. No listener is set on the
  stream, so an error of the stream is not thrown by \<^verbatim>\<open>addFileToArchive\<close>: the entry is
  added all the same.
\<close>

type_synonym zip_entry = "string \<times> (error + string)"

definition readStream :: "lib \<Rightarrow> string \<Rightarrow> string \<Rightarrow> error + string" where
  "readStream L realPath content =
     (case read_error L realPath of None \<Rightarrow> Inr content | Some e \<Rightarrow> Inl e)"

definition addFileToArchive ::
  "lib \<Rightarrow> string \<Rightarrow> zip_entry list \<Rightarrow> string \<Rightarrow> string \<Rightarrow> error + zip_entry list" where
  "addFileToArchive L archiveRoot zipfile realPath content =
     (let stream = readStream L realPath content;
          destination = replace_first archiveRoot [] realPath
      in case zip_check_name L destination of
           Some e \<Rightarrow> Inl e
         | None \<Rightarrow> Inr (zipfile @ [(destination, stream)]))"

text \<open>
  \<^verbatim>\<open>addToArchive\<close> and \<^verbatim>\<open>addDirToArchive\<close>, on the node that \<^verbatim>\<open>fs.stat\<close> and
  \<^verbatim>\<open>fs.readdir\<close> find at the real path: a file is added, a directory is walked entry by
  entry, directories below it recursively.
\<close>

fun addToArchive ::
  "lib \<Rightarrow> string \<Rightarrow> zip_entry list \<Rightarrow> string \<Rightarrow> node \<Rightarrow> error + zip_entry list"
and addDirToArchive ::
  "lib \<Rightarrow> string \<Rightarrow> zip_entry list \<Rightarrow> string \<Rightarrow> (string \<times> node) list
   \<Rightarrow> error + zip_entry list" where
  "addToArchive L archiveRoot zipfile realPath (File content) =
     addFileToArchive L archiveRoot zipfile realPath content"
| "addToArchive L archiveRoot zipfile realPath (Dir es) =
     addDirToArchive L archiveRoot zipfile realPath es"
| "addDirToArchive L archiveRoot zipfile realPath [] = Inr zipfile"
| "addDirToArchive L archiveRoot zipfile realPath ((fileName, n) # es) =
     (case addToArchive L archiveRoot zipfile (slash_end realPath @ fileName) n of
        Inl e \<Rightarrow> Inl e
      | Inr zipfile' \<Rightarrow> addDirToArchive L archiveRoot zipfile' realPath es)"

text \<open>The loop of \<^verbatim>\<open>compress\<close> over the selected real paths.\<close>

fun addSelection ::
  "lib \<Rightarrow> string \<Rightarrow> node \<Rightarrow> zip_entry list \<Rightarrow> string list \<Rightarrow> error + zip_entry list" where
  "addSelection L archiveRoot fs zipfile [] = Inr zipfile"
| "addSelection L archiveRoot fs zipfile (realPath # realPaths) =
     (case stat_node fs (segments realPath) of
        Inl code \<Rightarrow> Inl (SysError code realPath)
      | Inr n \<Rightarrow>
          (case addToArchive L archiveRoot zipfile realPath n of
             Inl e \<Rightarrow> Inl e
           | Inr zipfile' \<Rightarrow> addSelection L archiveRoot fs zipfile' realPaths))"

text \<open>
  The output of \<^verbatim>\<open>yazl\<close> after \<^verbatim>\<open>zipfile.end()\<close>. The entries are written in order, each
  from its stream. When every stream gives its bytes the output is the archive of the
  entries. When a stream fails the output stalls at that entry and stays as it is.
\<close>

fun pumped :: "zip_entry list \<Rightarrow> (string \<times> string) list" where
  "pumped [] = []"
| "pumped ((entryName, Inr bytes) # es) = (entryName, bytes) # pumped es"
| "pumped ((entryName, Inl e) # es) = []"

definition outputOf :: "lib \<Rightarrow> zip_entry list \<Rightarrow> string" where
  "outputOf L zipfile =
     (if list_ex (\<lambda>entry. isl (snd entry)) zipfile then zip_stalled L (pumped zipfile)
      else zip_encode L (pumped zipfile))"

text \<open>The loop of \<^verbatim>\<open>extract\<close>: each archive is unpacked next to itself.\<close>

fun extractSelection :: "lib \<Rightarrow> string list \<Rightarrow> node \<Rightarrow> (error + jsval) \<times> node" where
  "extractSelection L [] fs = (Inr (VBool True), fs)"
| "extractSelection L (realPath # realPaths) fs =
     (case extract_zip L realPath (join ''.'' (butlast (split_on CHR ''.'' realPath))) fs of
        Inl e \<Rightarrow> (Inl e, fs)
      | Inr fs1 \<Rightarrow> extractSelection L realPaths fs1)"

text \<open>The path of the archive: the first real path with \<^verbatim>\<open>.zip\<close> appended.\<close>

definition zipPathOf :: "string list \<Rightarrow> string" where
  "zipPathOf realPaths = (case realPaths of [] \<Rightarrow> ''undefined.zip'' | r # rs \<Rightarrow> r @ ''.zip'')"

text \<open>
  \<^verbatim>\<open>fs.createWriteStream(path)\<close> for the archive: the file is created empty, unless a
  directory has its name or its parent is missing (\<open>None\<close>).
\<close>

definition createWriteStream :: "string \<Rightarrow> node \<Rightarrow> node option" where
  "createWriteStream p fs =
     (case stat_node fs (segments p) of
        Inr (Dir es) \<Rightarrow> None
      | _ \<Rightarrow> put (segments p) (File []) fs)"

text \<open>
  The directory of the archive with the separator, which \<^verbatim>\<open>addFileToArchive\<close> removes
  from the real paths.
\<close>

definition archiveRootOf :: "lib \<Rightarrow> string \<Rightarrow> string" where
  "archiveRootOf L zipPath = path_dirname L zipPath @ ''/''"

text \<open>
  \<^verbatim>\<open>compress\<close>. The output file is opened first, then the selection is walked. At the end
  the file holds the output of the collected entries. On an error of the walk the file is
  unlinked and the error is thrown again. An error of a read stream, or of the output
  stream when the file cannot be opened, has no listener and is not an error of the walk:
  it is raised outside the promise of \<^verbatim>\<open>archive\<close>, and the model gives what the promise
  settles to. When the output cannot be opened the file system stays as it is. The state is
  the one after the output stream has been flushed and the unlink has completed.
\<close>

definition compress :: "lib \<Rightarrow> string list \<Rightarrow> node \<Rightarrow> (error + jsval) \<times> node" where
  "compress L realPaths fs =
     (let zipPath = zipPathOf realPaths;
          archiveRoot = archiveRootOf L zipPath;
          opened = createWriteStream zipPath fs;
          fs1 = (case opened of None \<Rightarrow> fs | Some f \<Rightarrow> f)
      in case addSelection L archiveRoot fs1 [] realPaths of
           Inl err \<Rightarrow>
             (Inl err, (case opened of None \<Rightarrow> fs | Some f \<Rightarrow> remove (segments zipPath) f))
         | Inr zipfile \<Rightarrow>
             (Inr (VBool True),
              (case opened of
                 None \<Rightarrow> fs
               | Some f \<Rightarrow> (case put (segments zipPath) (File (outputOf L zipfile)) f of
                             None \<Rightarrow> f | Some f2 \<Rightarrow> f2))))"

text \<open>\<^verbatim>\<open>archive(selection, options)\<close>\<close>

definition archive :: "lib \<Rightarrow> core \<Rightarrow> mount \<Rightarrow> jsval list \<Rightarrow> node \<Rightarrow> (error + jsval) \<times> node" where
  "archive L c mnt args fs =
     (case arg args 0 of
        VArr selection \<Rightarrow>
          (case collect (map (\<lambda>file. realPathOf L c mnt file (arg args 1)) selection) of
             Inl e \<Rightarrow> (Inl e, fs)
           | Inr realPaths \<Rightarrow>
               (case val_prop (default_options (arg args 1)) ''action'' of
                  Inl e \<Rightarrow> (Inl e, fs)
                | Inr a \<Rightarrow>
                    (let action = (if truthy a then a else VStr ''compress'')
                     in if action = VStr ''compress'' then compress L realPaths fs
                        else if action = VStr ''extract'' then extractSelection L realPaths fs
                        else (Inl (PlainError (''Unknown archive action: ''
                                      @ quoted (case action of VStr t \<Rightarrow> t
                                                | _ \<Rightarrow> js_String L action))), fs))))
      | _ \<Rightarrow> (Inl (TypeError ''selection.map is not a function''), fs))"

subsection \<open>The adapter object\<close>

text \<open>
  The methods bound to one mount, and \<^verbatim>\<open>rename\<close> bound to two. The methods \<^verbatim>\<open>stat\<close>,
  \<^verbatim>\<open>readdir\<close>, \<^verbatim>\<open>search\<close>, \<^verbatim>\<open>touch\<close>, \<^verbatim>\<open>copy\<close> and \<^verbatim>\<open>watch\<close> of the source are not part
  of this model.
\<close>

definition bind1 ::
  "(mount \<Rightarrow> jsval list \<Rightarrow> 'w \<Rightarrow> (error + jsval) \<times> 'w) \<Rightarrow> 'w adapter_method" where
  "bind1 f ms args w =
     (case ms of
        [] \<Rightarrow> (Inl (TypeError ''Cannot read properties of undefined (reading mount)''), w)
      | m # rest \<Rightarrow> f m args w)"

definition bind2 ::
  "(mount \<Rightarrow> mount \<Rightarrow> jsval list \<Rightarrow> 'w \<Rightarrow> (error + jsval) \<times> 'w) \<Rightarrow> 'w adapter_method" where
  "bind2 f ms args w =
     (case ms of
        m1 # m2 # rest \<Rightarrow> f m1 m2 args w
      | _ \<Rightarrow> (Inl (TypeError ''Cannot read properties of undefined (reading mount)''), w))"

definition systemAdapter :: "lib \<Rightarrow> core \<Rightarrow> nat \<Rightarrow> node vfs_adapter" where
  "systemAdapter L c ident =
     \<lparr> adapter_id = ident,
       methods = (\<lambda>m.
         if m = ''capabilities'' then Some (bind1 capabilities)
         else if m = ''realpath'' then Some (bind1 (realpath L c))
         else if m = ''exists'' then Some (bind1 (exists_path L c))
         else if m = ''readfile'' then Some (bind1 (readfile L c))
         else if m = ''mkdir'' then Some (bind1 (mkdir L c))
         else if m = ''writefile'' then Some (bind1 (writefile L c))
         else if m = ''rename'' then Some (bind2 (rename L c))
         else if m = ''unlink'' then Some (bind1 (unlink L c))
         else if m = ''archive'' then Some (bind1 (archive L c))
         else None) \<rparr>"

section \<open>The package sanitize-filename\<close>

text \<open>
  The published algorithm of the package that \<^verbatim>\<open>utils/vfs.js\<close> requires, with the empty
  replacement: the illegal characters \<^verbatim>\<open>/ ? < > \ : * | "\<close> are removed, then the control
  characters, then a name of dots only and a reserved device name (with any extension)
  become empty, then trailing dots and spaces are removed, and the result is cut to 255
  bytes of UTF-8.
\<close>

definition illegal_char :: "char \<Rightarrow> bool" where
  "illegal_char c =
     (c \<in> set [CHR ''/'', CHR ''?'', CHR ''<'', CHR ''>'', CHR 0x5C, CHR '':'', CHR ''*'',
               CHR ''|'', CHR 0x22])"

definition control_char :: "char \<Rightarrow> bool" where
  "control_char c = (let n = (of_char c :: nat) in n \<le> 31 \<or> (128 \<le> n \<and> n \<le> 159))"

definition lower_char :: "char \<Rightarrow> char" where
  "lower_char c = (let n = (of_char c :: nat) in if 65 \<le> n \<and> n \<le> 90 then char_of (n + 32) else c)"

definition is_digit :: "char \<Rightarrow> bool" where
  "is_digit c = (let n = (of_char c :: nat) in 48 \<le> n \<and> n \<le> 57)"

definition only_dots :: "string \<Rightarrow> bool" where
  "only_dots s = (s \<noteq> [] \<and> list_all (\<lambda>c. c = CHR ''.'') s)"

definition windows_reserved :: "string \<Rightarrow> bool" where
  "windows_reserved s =
     (let stem = map lower_char (takeWhile (\<lambda>c. c \<noteq> CHR ''.'') s);
          ext = dropWhile (\<lambda>c. c \<noteq> CHR ''.'') s
      in (stem \<in> set [''con'', ''prn'', ''aux'', ''nul'']
          \<or> (length stem = 4 \<and> take 3 stem \<in> set [''com'', ''lpt''] \<and> is_digit (stem ! 3)))
         \<and> \<not> list_ex is_line_terminator ext)"

definition trim_trailing :: "string \<Rightarrow> string" where
  "trim_trailing s = rev (dropWhile (\<lambda>c. c = CHR ''.'' \<or> c = CHR '' '') (rev s))"

fun truncate_bytes :: "nat \<Rightarrow> string \<Rightarrow> string" where
  "truncate_bytes n [] = []"
| "truncate_bytes n (c # cs) =
     (let b = (if (of_char c :: nat) < 128 then 1 else 2)
      in if b \<le> n then c # truncate_bytes (n - b) cs else [])"

definition sanitizeFilename_npm :: "string \<Rightarrow> string" where
  "sanitizeFilename_npm input =
     (let s1 = filter (\<lambda>c. \<not> illegal_char c) input;
          s2 = filter (\<lambda>c. \<not> control_char c) s1;
          s3 = (if only_dots s2 then [] else s2);
          s4 = (if windows_reserved s3 then [] else s3);
          s5 = trim_trailing s4
      in truncate_bytes 255 s5)"

section \<open>Addresses of the data model\<close>

text \<open>
  A VFS address: a non-empty prefix of word characters, hyphens and underscores, then a
  colon and a path.
\<close>

definition valid_address :: "string \<Rightarrow> bool" where
  "valid_address x =
     (\<exists>nm rest. nm \<noteq> [] \<and> (\<forall>c \<in> set nm. is_word_char c) \<and> x = nm @ '':'' @ rest)"

text \<open>
  The path segments of an address, as \<^verbatim>\<open>sanitize\<close> splits them, and the segments that
  the filename sanitizer treats stably: the sanitized name is left unchanged by a second
  pass and holds no colon, slash or line terminator.
\<close>

definition address_segments :: "string \<Rightarrow> string list" where
  "address_segments x =
     (case match_address (collapse_slashes x) of
        None \<Rightarrow> []
      | Some (nm, str) \<Rightarrow> split_on CHR ''/'' str)"

definition stable_segment :: "lib \<Rightarrow> string \<Rightarrow> bool" where
  "stable_segment L t =
     (let u = sanitizeFilename L t
      in sanitizeFilename L u = u
         \<and> list_all (\<lambda>c. c \<noteq> CHR '':'' \<and> c \<noteq> CHR ''/'' \<and> \<not> is_line_terminator c) u)"

section \<open>The files of a selection\<close>






section \<open>A sample configuration\<close>

text \<open>
  Library functions for the examples. The path functions agree with those of Node.js on
  absolute paths without \<^verbatim>\<open>.\<close> and \<^verbatim>\<open>..\<close> names; the entry check is the one of \<^verbatim>\<open>yazl\<close>
  for empty, absolute and parent-relative names.
\<close>

definition sample_join :: "string \<Rightarrow> string \<Rightarrow> string" where
  "sample_join a b = collapse_slashes (a @ ''/'' @ b)"

definition sample_dirname :: "string \<Rightarrow> string" where
  "sample_dirname p =
     (let d = rev (tl (dropWhile (\<lambda>c. c \<noteq> CHR ''/'') (rev p)))
      in if d = [] then ''/'' else d)"

definition sample_basename :: "string \<Rightarrow> string" where
  "sample_basename p = rev (takeWhile (\<lambda>c. c \<noteq> CHR ''/'') (rev p))"

definition sample_check_name :: "string \<Rightarrow> error option" where
  "sample_check_name n =
     (if n = [] then Some (PlainError ''empty metadataPath'')
      else if hd n = CHR ''/'' then Some (PlainError (''absolute path: '' @ n))
      else if ''..'' \<in> set (split_on CHR ''/'' n)
      then Some (PlainError (''invalid relative path: '' @ n))
      else None)"

definition sample_lib :: lib where
  "sample_lib =
     \<lparr> sanitizeFilename = sanitizeFilename_npm,
       json_parse = (\<lambda>s. None),
       parseInt = (\<lambda>s. NaN),
       js_String = (\<lambda>v. ''[object]''),
       path_join = sample_join,
       path_basename = sample_basename,
       path_dirname = sample_dirname,
       encodeURIComponent = (\<lambda>s. s),
       zip_check_name = sample_check_name,
       zip_encode = (\<lambda>es. concat (map (\<lambda>(n, c). n @ ''='' @ c @ '';'') es)),
       extract_zip = (\<lambda>z d fs. Inr fs),
       read_error = (\<lambda>p. None),
       zip_stalled = (\<lambda>es. concat (map (\<lambda>(n, c). n @ ''='' @ c @ '';'') es) @ ''...'') \<rparr>"

definition sample_core :: core where
  "sample_core = \<lparr> cwd = ''/srv'', vfs_root = Some ''/data'' \<rparr>"

text \<open>A mountpoint with the given name, adapter, root template, read-only flag and groups.\<close>

definition sample_mount ::
  "string \<Rightarrow> string option \<Rightarrow> string \<Rightarrow> bool \<Rightarrow> group_entry list option \<Rightarrow> mount" where
  "sample_mount n a rt ro gs =
     \<lparr> name = n, root = n @ '':/'', adapter = a,
       attributes = \<lparr> readOnly = ro, groups = gs, strictGroups = None, searchable = None,
                      ranges = None, attr_adapter = a, attr_root = rt \<rparr> \<rparr>"

text \<open>
  Three mountpoints: the home directory of the user on the system adapter, a shared
  directory on a second instance of the adapter, restricted to a group, and a read-only
  mountpoint.
\<close>

definition home_mount :: mount where
  "home_mount = sample_mount ''home'' None ''{vfs}/{username}'' False None"

definition shared_mount :: mount where
  "shared_mount =
     sample_mount ''shared'' (Some ''other'') ''{vfs}/shared'' False (Some [Named ''staff''])"

definition dist_mount :: mount where
  "dist_mount = sample_mount ''meeseOS'' None ''{root}/dist'' True (Some [Named ''admin''])"

definition sample_service :: "node vfs_service" where
  "sample_service =
     \<lparr> adapters = (\<lambda>n. if n = ''system'' then Some (systemAdapter sample_lib sample_core 0)
                        else if n = ''other'' then Some (systemAdapter sample_lib sample_core 1)
                        else None),
       mountpoints = [home_mount, shared_mount, dist_mount] \<rparr>"

definition sample_fs :: node where
  "sample_fs =
     Dir [(''data'',
            Dir [(''alice'',
                   Dir [(''f.txt'', File ''hello''),
                        (''docs'', Dir [(''a.txt'', File ''A''), (''b.txt'', File ''B'')])]),
                 (''shared'', Dir [(''inbox'', Dir [])])]),
          (''srv'', Dir [(''dist'', Dir [(''index.html'', File ''<html>'')])])]"

definition sample_request :: "string list \<Rightarrow> (string \<times> jsval) list \<Rightarrow> request" where
  "sample_request gs fs =
     \<lparr> req_session = \<lparr> session_user = \<lparr> username = ''alice'', user_groups = gs \<rparr> \<rparr>,
       req_fields = fs, range_header = None, files_upload = Some (UploadStream ''new'') \<rparr>"

definition start :: "'w \<Rightarrow> 'w exec" where
  "start w = \<lparr> world = w, calls = [], response = [] \<rparr>"




section \<open>Properties\<close>

subsection \<open>Group validation\<close>

lemma validateAll_iff:
  "validateAll arr compare strict =
     (if strict = Some False then (\<exists>g \<in> set arr. g \<in> set compare)
      else set arr \<subseteq> set compare)"
  by (cases strict) (auto simp: validateAll_def list_all_iff list_ex_iff)

lemma named_of_map_Named [simp]: "named_of (map Named G) = G"
  by (induction G) auto

lemma find_method_groups_Named [simp]: "find_method_groups (map Named G) meth = None"
  by (induction G) auto

text \<open>
  Claim C2. For a mount whose \<^verbatim>\<open>groups\<close> attribute is a non-empty list \<open>G\<close> of plain group
  names and a user with groups \<open>U\<close>, \<^verbatim>\<open>validateGroups\<close> succeeds in strict mode (also when
  \<^verbatim>\<open>strict\<close> is omitted) exactly when every name of \<open>G\<close> is in \<open>U\<close>, and in lenient mode
  exactly when some name of \<open>G\<close> is in \<open>U\<close>. A mount without the attribute, or with an empty
  list, passes in every mode.
\<close>

theorem validateGroups_named_groups:
  "(groups (attributes m) = Some (map Named G) \<and> G \<noteq> [] \<longrightarrow>
      (validateGroups U meth m (Some True) \<longleftrightarrow> (\<forall>g \<in> set G. g \<in> set U)) \<and>
      (validateGroups U meth m None \<longleftrightarrow> (\<forall>g \<in> set G. g \<in> set U)) \<and>
      (validateGroups U meth m (Some False) \<longleftrightarrow> (\<exists>g \<in> set G. g \<in> set U))) \<and>
   (groups (attributes m) = None \<or> groups (attributes m) = Some [] \<longrightarrow>
      validateGroups U meth m strict)"
  by (auto simp: validateGroups_def validateNamedGroups_def validateMethodGroups_def
        validateAll_iff Let_def)

text \<open>
  The two examples of the specification: user \<open>[required]\<close> against mount groups
  \<open>[required, other]\<close> fails strictly and passes leniently; user \<open>[required, other]\<close> against
  \<open>[required]\<close> passes in both modes; a mount without groups passes.
\<close>

theorem validateGroups_named_groups_witness:
  "\<not> validateGroups [''required''] ''readdir''
        (sample_mount ''meeseOS'' None ''/'' True (Some [Named ''required'', Named ''other''])) (Some True)
   \<and> validateGroups [''required''] ''readdir''
        (sample_mount ''meeseOS'' None ''/'' True (Some [Named ''required'', Named ''other''])) (Some False)
   \<and> validateGroups [''required'', ''other''] ''readdir''
        (sample_mount ''meeseOS'' None ''/'' True (Some [Named ''required''])) (Some True)
   \<and> validateGroups [''required'', ''other''] ''readdir''
        (sample_mount ''meeseOS'' None ''/'' True (Some [Named ''required''])) (Some False)
   \<and> validateGroups [] ''readdir'' (sample_mount ''meeseOS'' None ''/'' True None) (Some True)"
  using validateGroups_named_groups
          [of "sample_mount ''meeseOS'' None ''/'' True (Some [Named ''required'', Named ''other''])"
              "[''required'', ''other'']" "[''required'']" "''readdir''" "Some True"]
        validateGroups_named_groups
          [of "sample_mount ''meeseOS'' None ''/'' True (Some [Named ''required''])"
              "[''required'']" "[''required'', ''other'']" "''readdir''" "Some True"]
        validateGroups_named_groups
          [of "sample_mount ''meeseOS'' None ''/'' True None" "[]" "[]" "''readdir''" "Some True"]
  by (simp add: sample_mount_def)


subsection \<open>Addresses\<close>


subsection \<open>Addresses and sanitize\<close>

lemma is_word_char_slash [simp]: "\<not> is_word_char CHR ''/''"
  by (simp add: is_word_char_def)

lemma is_word_char_colon [simp]: "\<not> is_word_char CHR '':''"
  by (simp add: is_word_char_def)

lemma collapse_slashes_Nil_iff [simp]: "collapse_slashes s = [] \<longleftrightarrow> s = []"
  by (induction s rule: collapse_slashes.induct) auto

lemma hd_collapse_slashes [simp]: "hd (collapse_slashes s) = hd s"
  by (induction s rule: collapse_slashes.induct) auto

lemma collapse_slashes_Cons:
  "c \<noteq> CHR ''/'' \<Longrightarrow> collapse_slashes (c # s) = c # collapse_slashes s"
  by (cases s) auto

lemma takeWhile_word_collapse [simp]:
  "takeWhile is_word_char (collapse_slashes s) = takeWhile is_word_char s"
proof (induction s)
  case Nil then show ?case by simp
next
  case (Cons c s)
  show ?case
  proof (cases "is_word_char c")
    case True
    then have "c \<noteq> CHR ''/''" by auto
    with True Cons show ?thesis by (simp add: collapse_slashes_Cons)
  next
    case False
    have "collapse_slashes (c # s) \<noteq> []" by simp
    moreover have "hd (collapse_slashes (c # s)) = c" by simp
    ultimately have "takeWhile is_word_char (collapse_slashes (c # s)) = []"
      using False by (cases "collapse_slashes (c # s)") auto
    with False show ?thesis by simp
  qed
qed

lemma dropWhile_word_collapse [simp]:
  "dropWhile is_word_char (collapse_slashes s) = collapse_slashes (dropWhile is_word_char s)"
proof (induction s)
  case Nil then show ?case by simp
next
  case (Cons c s)
  show ?case
  proof (cases "is_word_char c")
    case True
    then have "c \<noteq> CHR ''/''" by auto
    with True Cons show ?thesis by (simp add: collapse_slashes_Cons)
  next
    case False
    have "collapse_slashes (c # s) \<noteq> []" by simp
    moreover have "hd (collapse_slashes (c # s)) = c" by simp
    ultimately have "dropWhile is_word_char (collapse_slashes (c # s)) = collapse_slashes (c # s)"
      using False by (cases "collapse_slashes (c # s)") auto
    with False show ?thesis by simp
  qed
qed

lemma valid_address_iff:
  "valid_address x \<longleftrightarrow>
     takeWhile is_word_char x \<noteq> [] \<and> dropWhile is_word_char x \<noteq> []
       \<and> hd (dropWhile is_word_char x) = CHR '':''"
proof
  assume "valid_address x"
  then obtain nm rest where nm: "nm \<noteq> []" "\<forall>c \<in> set nm. is_word_char c" "x = nm @ '':'' @ rest"
    unfolding valid_address_def by blast
  then have "takeWhile is_word_char x = nm" "dropWhile is_word_char x = '':'' @ rest"
    by (simp_all add: takeWhile_append2 dropWhile_append2)
  with nm show "takeWhile is_word_char x \<noteq> [] \<and> dropWhile is_word_char x \<noteq> []
       \<and> hd (dropWhile is_word_char x) = CHR '':''" by simp
next
  assume a: "takeWhile is_word_char x \<noteq> [] \<and> dropWhile is_word_char x \<noteq> []
       \<and> hd (dropWhile is_word_char x) = CHR '':''"
  then obtain rest where "dropWhile is_word_char x = CHR '':'' # rest"
    by (cases "dropWhile is_word_char x") auto
  then have "x = takeWhile is_word_char x @ '':'' @ rest"
    by (metis append_Cons append_Nil takeWhile_dropWhile_id)
  moreover have "\<forall>c \<in> set (takeWhile is_word_char x). is_word_char c"
    by (auto dest: set_takeWhileD)
  ultimately show "valid_address x" using a unfolding valid_address_def by blast
qed

lemma match_address_None_iff:
  "match_address (collapse_slashes x) = None \<longleftrightarrow> \<not> valid_address x"
  by (auto simp: match_address_def valid_address_iff Let_def)

lemma sanitizeString_invalid:
  "\<not> valid_address x \<Longrightarrow>
   sanitizeString L x = Inl (TypeError ''Cannot read properties of undefined (reading split)'')"
  using match_address_None_iff [of x] by (simp add: sanitizeString_def)

lemma sanitizeString_prefix:
  assumes "sanitizeString L x = Inr y"
  shows "getPrefix y = getPrefix x"
proof -
  from assms obtain nm str where m: "match_address (collapse_slashes x) = Some (nm, str)"
    and y: "y = nm @ '':'' @ collapse_slashes
                 (join ''/'' (map (sanitizeFilename L) (split_on CHR ''/'' str)))"
    by (auto simp: sanitizeString_def Let_def split: option.splits)
  from m have nm: "nm = takeWhile is_word_char x" and
      d: "dropWhile is_word_char x \<noteq> []" "hd (dropWhile is_word_char x) = CHR '':''"
    by (auto simp: match_address_def Let_def split: if_splits)
  from d obtain rest where r: "dropWhile is_word_char x = CHR '':'' # rest"
    by (cases "dropWhile is_word_char x") auto
  have nc: "\<forall>c \<in> set nm. c \<noteq> CHR '':''"
    unfolding nm by (auto dest: set_takeWhileD)
  have x: "x = nm @ CHR '':'' # rest"
    using r nm by (metis takeWhile_dropWhile_id)
  have "getPrefix x = nm"
    unfolding getPrefix_def by (subst x) (use nc in \<open>simp add: takeWhile_tail\<close>)
  moreover have "getPrefix y = nm"
    unfolding getPrefix_def y using nc by (simp add: takeWhile_tail)
  ultimately show ?thesis by simp
qed

subsection \<open>Rejections of the dispatcher\<close>

lemma gate_readOnly:
  "readOnly (attributes mnt) \<Longrightarrow>
   checkMountpointPermission req meth (RoBool True) strict mnt =
     Inl (HttpError 403 (''Mountpoint '' @ quoted (name mnt) @ '' is read-only''))"
  by (simp add: checkMountpointPermission_def ro_truthy_def createError_def)

lemma gate_rejects_403:
  "checkMountpointPermission req meth ro strict mnt = Inl e \<Longrightarrow> \<exists>msg. e = HttpError 403 msg"
  by (auto simp: checkMountpointPermission_def createError_def Let_def split: if_splits)

lemma gate_resolves_iff:
  "(\<exists>ok. checkMountpointPermission req meth (RoBool False) strict mnt = Inr ok) \<longleftrightarrow>
   validateGroups (user_groups (session_user (req_session req))) meth mnt strict"
  by (auto simp: checkMountpointPermission_def createError_def ro_truthy_def Let_def)

lemma resolver_not_found:
  assumes "\<forall>m \<in> set (mountpoints svc). name m \<noteq> getPrefix path"
  shows "mountpointResolver svc path =
     Inl (HttpError 403 (''Mountpoint not found for '' @ quoted (getPrefix path)))"
proof -
  from assms have "find (\<lambda>m. name m = getPrefix path) (mountpoints svc) = None"
    by (simp add: find_None_iff)
  then show ?thesis by (simp add: mountpointResolver_def createError_def)
qed

lemma createRequest_getter_rejects:
  "getter L req = Inl e \<Longrightarrow>
   createRequest L svc getter meth ro respond req ex = (Inl e, ex)"
  by (simp add: createRequest_def)

lemma createRequest_resolver_rejects:
  "getter L req = Inr (tgt, rest) \<Longrightarrow> mountpointResolver svc (target_string tgt) = Inl e \<Longrightarrow>
   createRequest L svc getter meth ro respond req ex = (Inl e, ex)"
  by (simp add: createRequest_def)

lemma createRequest_gate_rejects:
  "getter L req = Inr (tgt, rest) \<Longrightarrow> mountpointResolver svc (target_string tgt) = Inr found \<Longrightarrow>
   \<not> (meth = ''search'' \<and> searchable (attributes (r_mount found)) = Some False) \<Longrightarrow>
   checkMountpointPermission req meth ro
      (Some (strictGroups (attributes (r_mount found)) \<noteq> Some False)) (r_mount found) = Inl e \<Longrightarrow>
   createRequest L svc getter meth ro respond req ex = (Inl e, ex)"
  by (simp add: createRequest_def Let_def)

lemma createRequest_not_searchable:
  "getter L req = Inr (tgt, rest) \<Longrightarrow> mountpointResolver svc (target_string tgt) = Inr found \<Longrightarrow>
   (meth = ''search'' \<and> searchable (attributes (r_mount found)) = Some False) \<Longrightarrow>
   createRequest L svc getter meth ro respond req ex = (Inr (VArr []), ex)"
  by (simp add: createRequest_def Let_def)

lemma cross_getter_rejects:
  "requestCross L req = Inl e \<Longrightarrow> createCrossRequest L svc meth req ex = (Inl e, ex)"
  by (simp add: createCrossRequest_def)

lemma cross_src_resolver_rejects:
  "requestCross L req = Inr (src, dst) \<Longrightarrow> mountpointResolver svc (target_string src) = Inl e \<Longrightarrow>
   createCrossRequest L svc meth req ex = (Inl e, ex)"
  by (simp add: createCrossRequest_def)

lemma cross_dst_resolver_rejects:
  "requestCross L req = Inr (src, dst) \<Longrightarrow> mountpointResolver svc (target_string src) = Inr sm \<Longrightarrow>
   mountpointResolver svc (target_string dst) = Inl e \<Longrightarrow>
   createCrossRequest L svc meth req ex = (Inl e, ex)"
  by (simp add: createCrossRequest_def)

lemma cross_src_gate_rejects:
  "requestCross L req = Inr (src, dst) \<Longrightarrow> mountpointResolver svc (target_string src) = Inr sm \<Longrightarrow>
   mountpointResolver svc (target_string dst) = Inr dm \<Longrightarrow>
   checkMountpointPermission req ''readfile'' (RoBool False)
      (Some (strictGroups (attributes (r_mount sm)) \<noteq> Some False)) (r_mount sm) = Inl e \<Longrightarrow>
   createCrossRequest L svc meth req ex = (Inl e, ex)"
  by (simp add: createCrossRequest_def Let_def)

lemma cross_dst_gate_rejects:
  "requestCross L req = Inr (src, dst) \<Longrightarrow> mountpointResolver svc (target_string src) = Inr sm \<Longrightarrow>
   mountpointResolver svc (target_string dst) = Inr dm \<Longrightarrow>
   checkMountpointPermission req ''readfile'' (RoBool False)
      (Some (strictGroups (attributes (r_mount sm)) \<noteq> Some False)) (r_mount sm) = Inr ok \<Longrightarrow>
   checkMountpointPermission req ''writefile'' (RoBool True)
      (Some (strictGroups (attributes (r_mount dm)) \<noteq> Some False)) (r_mount dm) = Inl e \<Longrightarrow>
   createCrossRequest L svc meth req ex = (Inl e, ex)"
  by (simp add: createCrossRequest_def Let_def)

text \<open>An adapter call is logged, so a request that left the log as it was invoked nothing.\<close>

lemma invoke_calls:
  "invoke a m f ms args ex = (r, ex') \<Longrightarrow> calls ex' = calls ex @ [(adapter_id a, m)]"
  by (auto simp: invoke_def Let_def split: prod.splits)

lemma createRequest_authorized:
  assumes "createRequest L svc getter meth ro respond req ex = (r, ex')" and "ex' \<noteq> ex"
  shows "\<exists>tgt rest found ok.
           getter L req = Inr (tgt, rest) \<and>
           mountpointResolver svc (target_string tgt) = Inr found \<and>
           checkMountpointPermission req meth ro
             (Some (strictGroups (attributes (r_mount found)) \<noteq> Some False)) (r_mount found) = Inr ok"
  using assms
  by (auto simp: createRequest_def Let_def split: sum.splits prod.splits if_splits)

lemma createCrossRequest_authorized:
  assumes "createCrossRequest L svc meth req ex = (r, ex')" and "ex' \<noteq> ex"
  shows "\<exists>src dst sm dm ok1 ok2.
           requestCross L req = Inr (src, dst) \<and>
           mountpointResolver svc (target_string src) = Inr sm \<and>
           mountpointResolver svc (target_string dst) = Inr dm \<and>
           checkMountpointPermission req ''readfile'' (RoBool False)
             (Some (strictGroups (attributes (r_mount sm)) \<noteq> Some False)) (r_mount sm) = Inr ok1 \<and>
           checkMountpointPermission req ''writefile'' (RoBool True)
             (Some (strictGroups (attributes (r_mount dm)) \<noteq> Some False)) (r_mount dm) = Inr ok2"
  using assms
  by (auto simp: createCrossRequest_def Let_def split: sum.splits prod.splits if_splits)

lemmas sample_defs =
  sample_service_def sample_lib_def sample_core_def sample_mount_def home_mount_def
  shared_mount_def dist_mount_def sample_request_def start_def sample_fs_def

lemmas dispatch_defs =
  createRequest_def createCrossRequest_def vfs_def requestPath_def requestFile_def
  requestCross_def requestSearch_def requestSelection_def streamFromRequest_def field_def
  sanitizeString_def match_address_def is_word_char_def is_line_terminator_def
  mountpointResolver_def getPrefix_def checkMountpointPermission_def ro_truthy_def
  createError_def quoted_def validateGroups_def validateNamedGroups_def
  validateMethodGroups_def validateAll_def vfsMethodWrapper_def callMethod_def invoke_def
  createOptions_def own_props_def get_prop_def session_val_def is_object_def
  respondNumber_def respondBoolean_def

text \<open>
  Claim C4. A request with one target whose mountpoint resolution rejects, or whose
  permission gate rejects, rejects with that error and leaves the execution state (backend,
  log of adapter calls, response) as it was; the same holds for \<^verbatim>\<open>copy\<close> and \<^verbatim>\<open>rename\<close> for
  the resolution of the source and of the destination and for the gate of each. Conversely
  a request that has invoked an adapter meth went through a successful resolution and a
  successful gate.
\<close>

theorem no_adapter_call_before_authorization:
  "(getter L req = Inr (tgt, rest) \<and> mountpointResolver svc (target_string tgt) = Inl e
      \<longrightarrow> createRequest L svc getter meth ro respond req ex = (Inl e, ex))
   \<and> (getter L req = Inr (tgt, rest) \<and> mountpointResolver svc (target_string tgt) = Inr found
       \<and> \<not> (meth = ''search'' \<and> searchable (attributes (r_mount found)) = Some False)
       \<and> checkMountpointPermission req meth ro
            (Some (strictGroups (attributes (r_mount found)) \<noteq> Some False)) (r_mount found) = Inl e
      \<longrightarrow> createRequest L svc getter meth ro respond req ex = (Inl e, ex))
   \<and> (requestCross L req = Inr (src, dst) \<and> mountpointResolver svc (target_string src) = Inl e
      \<longrightarrow> createCrossRequest L svc cmethod req ex = (Inl e, ex))
   \<and> (requestCross L req = Inr (src, dst) \<and> mountpointResolver svc (target_string src) = Inr sm
       \<and> mountpointResolver svc (target_string dst) = Inl e
      \<longrightarrow> createCrossRequest L svc cmethod req ex = (Inl e, ex))
   \<and> (requestCross L req = Inr (src, dst) \<and> mountpointResolver svc (target_string src) = Inr sm
       \<and> mountpointResolver svc (target_string dst) = Inr dm
       \<and> checkMountpointPermission req ''readfile'' (RoBool False)
            (Some (strictGroups (attributes (r_mount sm)) \<noteq> Some False)) (r_mount sm) = Inl e
      \<longrightarrow> createCrossRequest L svc cmethod req ex = (Inl e, ex))
   \<and> (requestCross L req = Inr (src, dst) \<and> mountpointResolver svc (target_string src) = Inr sm
       \<and> mountpointResolver svc (target_string dst) = Inr dm
       \<and> checkMountpointPermission req ''readfile'' (RoBool False)
            (Some (strictGroups (attributes (r_mount sm)) \<noteq> Some False)) (r_mount sm) = Inr ok
       \<and> checkMountpointPermission req ''writefile'' (RoBool True)
            (Some (strictGroups (attributes (r_mount dm)) \<noteq> Some False)) (r_mount dm) = Inl e
      \<longrightarrow> createCrossRequest L svc cmethod req ex = (Inl e, ex))
   \<and> (createRequest L svc getter meth ro respond req ex = (r, ex') \<and> calls ex' \<noteq> calls ex
      \<longrightarrow> (\<exists>tgt rest found ok.
             getter L req = Inr (tgt, rest) \<and>
             mountpointResolver svc (target_string tgt) = Inr found \<and>
             checkMountpointPermission req meth ro
               (Some (strictGroups (attributes (r_mount found)) \<noteq> Some False))
               (r_mount found) = Inr ok))
   \<and> (createCrossRequest L svc cmethod req ex = (r, ex') \<and> calls ex' \<noteq> calls ex
      \<longrightarrow> (\<exists>src dst sm dm ok1 ok2.
             requestCross L req = Inr (src, dst) \<and>
             mountpointResolver svc (target_string src) = Inr sm \<and>
             mountpointResolver svc (target_string dst) = Inr dm \<and>
             checkMountpointPermission req ''readfile'' (RoBool False)
               (Some (strictGroups (attributes (r_mount sm)) \<noteq> Some False)) (r_mount sm) = Inr ok1 \<and>
             checkMountpointPermission req ''writefile'' (RoBool True)
               (Some (strictGroups (attributes (r_mount dm)) \<noteq> Some False)) (r_mount dm) = Inr ok2))"
proof -
  have c1: "createRequest L svc getter meth ro respond req ex = (r, ex') \<and> calls ex' \<noteq> calls ex
      \<longrightarrow> (\<exists>tgt rest found ok.
             getter L req = Inr (tgt, rest) \<and>
             mountpointResolver svc (target_string tgt) = Inr found \<and>
             checkMountpointPermission req meth ro
               (Some (strictGroups (attributes (r_mount found)) \<noteq> Some False))
               (r_mount found) = Inr ok)"
  proof
    assume "createRequest L svc getter meth ro respond req ex = (r, ex') \<and> calls ex' \<noteq> calls ex"
    then have "createRequest L svc getter meth ro respond req ex = (r, ex')" "ex' \<noteq> ex" by auto
    then show "\<exists>tgt rest found ok.
             getter L req = Inr (tgt, rest) \<and>
             mountpointResolver svc (target_string tgt) = Inr found \<and>
             checkMountpointPermission req meth ro
               (Some (strictGroups (attributes (r_mount found)) \<noteq> Some False))
               (r_mount found) = Inr ok"
      by (rule createRequest_authorized)
  qed
  have c2: "createCrossRequest L svc cmethod req ex = (r, ex') \<and> calls ex' \<noteq> calls ex
      \<longrightarrow> (\<exists>src dst sm dm ok1 ok2.
             requestCross L req = Inr (src, dst) \<and>
             mountpointResolver svc (target_string src) = Inr sm \<and>
             mountpointResolver svc (target_string dst) = Inr dm \<and>
             checkMountpointPermission req ''readfile'' (RoBool False)
               (Some (strictGroups (attributes (r_mount sm)) \<noteq> Some False)) (r_mount sm) = Inr ok1 \<and>
             checkMountpointPermission req ''writefile'' (RoBool True)
               (Some (strictGroups (attributes (r_mount dm)) \<noteq> Some False)) (r_mount dm) = Inr ok2)"
  proof
    assume "createCrossRequest L svc cmethod req ex = (r, ex') \<and> calls ex' \<noteq> calls ex"
    then have "createCrossRequest L svc cmethod req ex = (r, ex')" "ex' \<noteq> ex" by auto
    then show "\<exists>src dst sm dm ok1 ok2.
             requestCross L req = Inr (src, dst) \<and>
             mountpointResolver svc (target_string src) = Inr sm \<and>
             mountpointResolver svc (target_string dst) = Inr dm \<and>
             checkMountpointPermission req ''readfile'' (RoBool False)
               (Some (strictGroups (attributes (r_mount sm)) \<noteq> Some False)) (r_mount sm) = Inr ok1 \<and>
             checkMountpointPermission req ''writefile'' (RoBool True)
               (Some (strictGroups (attributes (r_mount dm)) \<noteq> Some False)) (r_mount dm) = Inr ok2"
      by (rule createCrossRequest_authorized)
  qed
  show ?thesis
    using c1 c2
    by (simp add: createRequest_resolver_rejects createRequest_gate_rejects
          cross_src_resolver_rejects cross_dst_resolver_rejects cross_src_gate_rejects
          cross_dst_gate_rejects)
qed



text \<open>
  An \<^verbatim>\<open>unlink\<close> of an address without mountpoint, and one on a mountpoint of a group the
  user is not in: both reject and invoke nothing.
\<close>

theorem no_adapter_call_before_authorization_witness:
  "requestPath sample_lib (sample_request [] [(''path'', VStr ''nowhere:/x'')])
       = Inr (TStr ''nowhere:/x'', [])
   \<and> mountpointResolver sample_service ''nowhere:/x''
       = Inl (HttpError 403 (''Mountpoint not found for '' @ quoted ''nowhere''))
   \<and> createRequest sample_lib sample_service requestPath ''unlink'' (RoBool True)
         (Some respondBoolean) (sample_request [] [(''path'', VStr ''nowhere:/x'')]) (start sample_fs)
       = (Inl (HttpError 403 (''Mountpoint not found for '' @ quoted ''nowhere'')), start sample_fs)
   \<and> requestPath sample_lib (sample_request [] [(''path'', VStr ''shared:/inbox'')])
       = Inr (TStr ''shared:/inbox'', [])
   \<and> mountpointResolver sample_service ''shared:/inbox''
       = Inr \<lparr> r_mount = shared_mount, r_adapter = Some (systemAdapter sample_lib sample_core 1) \<rparr>
   \<and> checkMountpointPermission (sample_request [] [(''path'', VStr ''shared:/inbox'')]) ''unlink''
         (RoBool True) (Some True) shared_mount
       = Inl (HttpError 403 (''Permission was denied for '' @ quoted ''unlink'' @ '' in ''
                              @ quoted ''shared''))
   \<and> createRequest sample_lib sample_service requestPath ''unlink'' (RoBool True)
         (Some respondBoolean) (sample_request [] [(''path'', VStr ''shared:/inbox'')]) (start sample_fs)
       = (Inl (HttpError 403 (''Permission was denied for '' @ quoted ''unlink'' @ '' in ''
                               @ quoted ''shared'')), start sample_fs)"
proof -
  let ?E = "HttpError 403 (''Mountpoint not found for '' @ quoted ''nowhere'')"
  let ?D = "HttpError 403 (''Permission was denied for '' @ quoted ''unlink'' @ '' in ''
                              @ quoted ''shared'')"
  let ?r1 = "sample_request [] [(''path'', VStr ''nowhere:/x'')]"
  let ?r2 = "sample_request [] [(''path'', VStr ''shared:/inbox'')]"
  let ?found = "\<lparr> r_mount = shared_mount, r_adapter = Some (systemAdapter sample_lib sample_core 1) \<rparr>"
  have g1: "requestPath sample_lib ?r1 = Inr (TStr ''nowhere:/x'', [])"
    by code_simp
  have m1: "mountpointResolver sample_service ''nowhere:/x'' = Inl ?E"
    by (simp add: sample_defs mountpointResolver_def getPrefix_def createError_def Let_def)
  have g2: "requestPath sample_lib ?r2 = Inr (TStr ''shared:/inbox'', [])"
    by code_simp
  have m2: "mountpointResolver sample_service ''shared:/inbox'' = Inr ?found"
    by (simp add: sample_defs mountpointResolver_def getPrefix_def createError_def Let_def)
  have p2: "checkMountpointPermission ?r2 ''unlink'' (RoBool True) (Some True) shared_mount = Inl ?D"
    by code_simp
  have s2: "strictGroups (attributes shared_mount) \<noteq> Some False" "searchable (attributes shared_mount) \<noteq> Some False"
    by (simp_all add: sample_defs)
  have c1: "createRequest sample_lib sample_service requestPath ''unlink'' (RoBool True)
         (Some respondBoolean) ?r1 (start sample_fs) = (Inl ?E, start sample_fs)"
    using no_adapter_call_before_authorization
            [where getter = requestPath and L = sample_lib and req = ?r1
               and tgt = "TStr ''nowhere:/x''" and rest = "[]" and svc = sample_service
               and e = ?E and meth = "''unlink''" and ro = "RoBool True"
               and respond = "Some respondBoolean" and ex = "start sample_fs"]
          g1 m1
    by simp
  have c2: "createRequest sample_lib sample_service requestPath ''unlink'' (RoBool True)
         (Some respondBoolean) ?r2 (start sample_fs) = (Inl ?D, start sample_fs)"
    using no_adapter_call_before_authorization
            [where getter = requestPath and L = sample_lib and req = ?r2
               and tgt = "TStr ''shared:/inbox''" and rest = "[]" and svc = sample_service
               and found = ?found
               and e = ?D and meth = "''unlink''" and ro = "RoBool True"
               and respond = "Some respondBoolean" and ex = "start sample_fs"]
          g2 m2 p2 s2
    by simp
  from g1 m1 c1 g2 m2 p2 c2 show ?thesis by blast
qed

subsection \<open>Read-only mountpoints\<close>

lemma vfs_writefile:
  "vfs L svc ''writefile'' = Some (createRequest L svc requestFile ''writefile'' (RoBool True) (Some respondNumber))"
  by (simp add: vfs_def)

lemma vfs_mkdir:
  "vfs L svc ''mkdir'' = Some (createRequest L svc requestPath ''mkdir'' (RoBool True) (Some respondBoolean))"
  by (simp add: vfs_def)

lemma vfs_unlink:
  "vfs L svc ''unlink'' = Some (createRequest L svc requestPath ''unlink'' (RoBool True) (Some respondBoolean))"
  by (simp add: vfs_def)

lemma vfs_touch:
  "vfs L svc ''touch'' = Some (createRequest L svc requestPath ''touch'' (RoBool True) (Some respondBoolean))"
  by (simp add: vfs_def)

lemma vfs_exists:
  "vfs L svc ''exists'' = Some (createRequest L svc requestPath ''exists'' (RoBool False) (Some respondBoolean))"
  by (simp add: vfs_def)

lemma vfs_copy: "vfs L svc ''copy'' = Some (createCrossRequest L svc ''copy'')"
  by (simp add: vfs_def)

lemma vfs_rename: "vfs L svc ''rename'' = Some (createCrossRequest L svc ''rename'')"
  by (simp add: vfs_def)

lemma vfs_mutating:
  assumes r: "route \<in> {''writefile'', ''mkdir'', ''unlink'', ''touch''}" and v: "vfs L svc route = Some h"
  shows "(route = ''writefile'' \<and> h = createRequest L svc requestFile route (RoBool True) (Some respondNumber))
       \<or> (route \<noteq> ''writefile'' \<and> h = createRequest L svc requestPath route (RoBool True) (Some respondBoolean))"
proof -
  from r consider "route = ''writefile''" | "route = ''mkdir''" | "route = ''unlink''" | "route = ''touch''"
    by blast
  then show ?thesis
  proof cases
    case 1 with v show ?thesis by (simp only: vfs_writefile) simp
  next
    case 2 with v show ?thesis by (simp only: vfs_mkdir) simp
  next
    case 3 with v show ?thesis by (simp only: vfs_unlink) simp
  next
    case 4 with v show ?thesis by (simp only: vfs_touch) simp
  qed
qed

lemma vfs_cross:
  assumes r: "route \<in> {''copy'', ''rename''}" and v: "vfs L svc route = Some h"
  shows "h = createCrossRequest L svc route"
proof -
  from r consider "route = ''copy''" | "route = ''rename''" by blast
  then show ?thesis
  proof cases
    case 1 with v show ?thesis by (simp only: vfs_copy) simp
  next
    case 2 with v show ?thesis by (simp only: vfs_rename) simp
  qed
qed

text \<open>
  Claim C1, with the order of the gates of \<^verbatim>\<open>copy\<close> and \<^verbatim>\<open>rename\<close> made explicit. On a
  mount whose \<^verbatim>\<open>attributes.readOnly\<close> is true the permission gate, called with
  \<^verbatim>\<open>readOnly = true\<close>, rejects with the 403 error \<^verbatim>\<open>Mountpoint '<name>' is read-only\<close> for
  every request, operation and mode, whatever the groups of the user and of the mount:
  the groups of the mount are not looked at. The routes \<^verbatim>\<open>writefile\<close>, \<^verbatim>\<open>mkdir\<close>,
  \<^verbatim>\<open>unlink\<close> and \<^verbatim>\<open>touch\<close> call the gate this way, so a well-formed request whose target
  resolves to the mount rejects with this error and with the execution state unchanged:
  no adapter call. \<^verbatim>\<open>copy\<close> and \<^verbatim>\<open>rename\<close> call the gate this way on the destination, but
  only after the gate of the source mount, which validates the groups of the user for
  \<^verbatim>\<open>readfile\<close>. When the user passes the groups of the source mount, the request rejects
  with the read-only error of the destination; when the user does not, it rejects with
  the denial of the source mount instead. In both cases the execution state is unchanged.
\<close>

theorem readOnly_mount_rejects_mutation:
  assumes ro: "readOnly (attributes mnt)"
  shows "checkMountpointPermission req meth (RoBool True) strict mnt
           = Inl (HttpError 403 (''Mountpoint '' @ quoted (name mnt) @ '' is read-only''))
   \<and> (route \<in> {''writefile'', ''mkdir'', ''unlink'', ''touch''} \<and> vfs L svc route = Some h
       \<and> sanitize L (field req ''path'') = Inr tgt
       \<and> (route = ''writefile'' \<longrightarrow> (\<exists>st. streamFromRequest (files_upload req) = Inr st))
       \<and> mountpointResolver svc (target_string tgt) = Inr found \<and> r_mount found = mnt
      \<longrightarrow> h req ex = (Inl (HttpError 403 (''Mountpoint '' @ quoted (name mnt) @ '' is read-only'')), ex))
   \<and> (croute \<in> {''copy'', ''rename''} \<and> vfs L svc croute = Some ch
       \<and> requestCross L req = Inr (src, dst)
       \<and> mountpointResolver svc (target_string src) = Inr sm
       \<and> mountpointResolver svc (target_string dst) = Inr dm \<and> r_mount dm = mnt
       \<and> validateGroups (user_groups (session_user (req_session req))) ''readfile'' (r_mount sm)
            (Some (strictGroups (attributes (r_mount sm)) \<noteq> Some False))
      \<longrightarrow> ch req ex = (Inl (HttpError 403 (''Mountpoint '' @ quoted (name mnt) @ '' is read-only'')), ex))
   \<and> (croute \<in> {''copy'', ''rename''} \<and> vfs L svc croute = Some ch
       \<and> requestCross L req = Inr (src, dst)
       \<and> mountpointResolver svc (target_string src) = Inr sm
       \<and> mountpointResolver svc (target_string dst) = Inr dm \<and> r_mount dm = mnt
       \<and> \<not> validateGroups (user_groups (session_user (req_session req))) ''readfile'' (r_mount sm)
            (Some (strictGroups (attributes (r_mount sm)) \<noteq> Some False))
      \<longrightarrow> ch req ex = (Inl (HttpError 403 (''Permission was denied for '' @ quoted ''readfile''
                                              @ '' in '' @ quoted (name (r_mount sm)))), ex))"
proof (intro conjI impI)
  show "checkMountpointPermission req meth (RoBool True) strict mnt
           = Inl (HttpError 403 (''Mountpoint '' @ quoted (name mnt) @ '' is read-only''))"
    using ro by (rule gate_readOnly)
next
  assume a: "route \<in> {''writefile'', ''mkdir'', ''unlink'', ''touch''} \<and> vfs L svc route = Some h
       \<and> sanitize L (field req ''path'') = Inr tgt
       \<and> (route = ''writefile'' \<longrightarrow> (\<exists>st. streamFromRequest (files_upload req) = Inr st))
       \<and> mountpointResolver svc (target_string tgt) = Inr found \<and> r_mount found = mnt"
  from a have r: "route \<in> {''writefile'', ''mkdir'', ''unlink'', ''touch''}" by (rule conjunct1)
  from a have v: "vfs L svc route = Some h" by blast
  from a have sn: "sanitize L (field req ''path'') = Inr tgt" by blast
  from a have up: "route = ''writefile'' \<longrightarrow> (\<exists>st. streamFromRequest (files_upload req) = Inr st)"
    by blast
  from a have res: "mountpointResolver svc (target_string tgt) = Inr found" by blast
  from a have rm: "r_mount found = mnt" by blast
  have gate: "checkMountpointPermission req route (RoBool True)
          (Some (strictGroups (attributes (r_mount found)) \<noteq> Some False)) (r_mount found)
        = Inl (HttpError 403 (''Mountpoint '' @ quoted (name mnt) @ '' is read-only''))"
    unfolding rm using ro by (rule gate_readOnly)
  from r have ns: "\<not> (route = ''search'' \<and> searchable (attributes (r_mount found)) = Some False)"
    by auto
  from vfs_mutating [OF r v]
  show "h req ex = (Inl (HttpError 403 (''Mountpoint '' @ quoted (name mnt) @ '' is read-only'')), ex)"
  proof
    assume w: "route = ''writefile'' \<and> h = createRequest L svc requestFile route (RoBool True) (Some respondNumber)"
    with up obtain st where "streamFromRequest (files_upload req) = Inr st" by blast
    with sn have "requestFile L req = Inr (tgt, [st])" by (simp add: requestFile_def)
    from createRequest_gate_rejects
           [where getter = requestFile and L = L and req = req, OF this res ns gate] w
    show ?thesis by simp
  next
    assume w: "route \<noteq> ''writefile'' \<and> h = createRequest L svc requestPath route (RoBool True) (Some respondBoolean)"
    from sn have "requestPath L req = Inr (tgt, [])" by (simp add: requestPath_def)
    from createRequest_gate_rejects
           [where getter = requestPath and L = L and req = req, OF this res ns gate] w
    show ?thesis by simp
  qed
next
  assume a: "croute \<in> {''copy'', ''rename''} \<and> vfs L svc croute = Some ch
       \<and> requestCross L req = Inr (src, dst)
       \<and> mountpointResolver svc (target_string src) = Inr sm
       \<and> mountpointResolver svc (target_string dst) = Inr dm \<and> r_mount dm = mnt
       \<and> validateGroups (user_groups (session_user (req_session req))) ''readfile'' (r_mount sm)
            (Some (strictGroups (attributes (r_mount sm)) \<noteq> Some False))"
  from a have r: "croute \<in> {''copy'', ''rename''}" by (rule conjunct1)
  from a have v: "vfs L svc croute = Some ch" by blast
  from a have rc: "requestCross L req = Inr (src, dst)" by blast
  from a have rs: "mountpointResolver svc (target_string src) = Inr sm" by blast
  from a have rd: "mountpointResolver svc (target_string dst) = Inr dm" by blast
  from a have rm: "r_mount dm = mnt" by blast
  from a have vg: "validateGroups (user_groups (session_user (req_session req))) ''readfile'' (r_mount sm)
            (Some (strictGroups (attributes (r_mount sm)) \<noteq> Some False))" by blast
  have h: "ch = createCrossRequest L svc croute" using r v by (rule vfs_cross)
  from vg obtain ok where g1: "checkMountpointPermission req ''readfile'' (RoBool False)
            (Some (strictGroups (attributes (r_mount sm)) \<noteq> Some False)) (r_mount sm) = Inr ok"
    using gate_resolves_iff by blast
  have g2: "checkMountpointPermission req ''writefile'' (RoBool True)
          (Some (strictGroups (attributes (r_mount dm)) \<noteq> Some False)) (r_mount dm)
        = Inl (HttpError 403 (''Mountpoint '' @ quoted (name mnt) @ '' is read-only''))"
    unfolding rm using ro by (rule gate_readOnly)
  show "ch req ex = (Inl (HttpError 403 (''Mountpoint '' @ quoted (name mnt) @ '' is read-only'')), ex)"
    unfolding h by (rule cross_dst_gate_rejects [OF rc rs rd g1 g2])
next
  assume a: "croute \<in> {''copy'', ''rename''} \<and> vfs L svc croute = Some ch
       \<and> requestCross L req = Inr (src, dst)
       \<and> mountpointResolver svc (target_string src) = Inr sm
       \<and> mountpointResolver svc (target_string dst) = Inr dm \<and> r_mount dm = mnt
       \<and> \<not> validateGroups (user_groups (session_user (req_session req))) ''readfile'' (r_mount sm)
            (Some (strictGroups (attributes (r_mount sm)) \<noteq> Some False))"
  from a have r: "croute \<in> {''copy'', ''rename''}" by (rule conjunct1)
  from a have v: "vfs L svc croute = Some ch" by blast
  from a have rc: "requestCross L req = Inr (src, dst)" by blast
  from a have rs: "mountpointResolver svc (target_string src) = Inr sm" by blast
  from a have rd: "mountpointResolver svc (target_string dst) = Inr dm" by blast
  from a have vg: "\<not> validateGroups (user_groups (session_user (req_session req))) ''readfile''
            (r_mount sm) (Some (strictGroups (attributes (r_mount sm)) \<noteq> Some False))" by blast
  have h: "ch = createCrossRequest L svc croute" using r v by (rule vfs_cross)
  from vg have g1: "checkMountpointPermission req ''readfile'' (RoBool False)
            (Some (strictGroups (attributes (r_mount sm)) \<noteq> Some False)) (r_mount sm)
        = Inl (HttpError 403 (''Permission was denied for '' @ quoted ''readfile''
                              @ '' in '' @ quoted (name (r_mount sm))))"
    by (simp add: checkMountpointPermission_def ro_truthy_def createError_def Let_def)
  show "ch req ex = (Inl (HttpError 403 (''Permission was denied for '' @ quoted ''readfile''
                                          @ '' in '' @ quoted (name (r_mount sm)))), ex)"
    unfolding h by (rule cross_src_gate_rejects [OF rc rs rd g1])
qed

text \<open>
  A user in the group of the read-only mountpoint writes to it, renames a file of the home
  directory into it, and renames a directory of the shared mountpoint, whose group the
  user is not in, into it.
\<close>

theorem readOnly_mount_rejects_mutation_witness:
  "readOnly (attributes dist_mount)
   \<and> checkMountpointPermission
         (sample_request [''admin''] [(''path'', VStr ''meeseOS:/index.html'')]) ''writefile''
         (RoBool True) None dist_mount
       = Inl (HttpError 403 (''Mountpoint '' @ quoted ''meeseOS'' @ '' is read-only''))
   \<and> (\<exists>h. vfs sample_lib sample_service ''writefile'' = Some h
          \<and> h (sample_request [''admin''] [(''path'', VStr ''meeseOS:/index.html'')]) (start sample_fs)
            = (Inl (HttpError 403 (''Mountpoint '' @ quoted ''meeseOS'' @ '' is read-only'')),
               start sample_fs))
   \<and> (\<exists>h. vfs sample_lib sample_service ''rename'' = Some h
          \<and> h (sample_request [''admin'']
                 [(''from'', VStr ''home:/f.txt''), (''to'', VStr ''meeseOS:/f.txt'')]) (start sample_fs)
            = (Inl (HttpError 403 (''Mountpoint '' @ quoted ''meeseOS'' @ '' is read-only'')),
               start sample_fs))
   \<and> (\<exists>h. vfs sample_lib sample_service ''rename'' = Some h
          \<and> h (sample_request [''admin'']
                 [(''from'', VStr ''shared:/inbox''), (''to'', VStr ''meeseOS:/inbox'')]) (start sample_fs)
            = (Inl (HttpError 403 (''Permission was denied for '' @ quoted ''readfile''
                                   @ '' in '' @ quoted ''shared'')),
               start sample_fs))"
proof -
  let ?r1 = "sample_request [''admin''] [(''path'', VStr ''meeseOS:/index.html'')]"
  let ?r2 = "sample_request [''admin''] [(''from'', VStr ''home:/f.txt''), (''to'', VStr ''meeseOS:/f.txt'')]"
  let ?h1 = "createRequest sample_lib sample_service requestFile ''writefile'' (RoBool True) (Some respondNumber)"
  let ?h2 = "createCrossRequest sample_lib sample_service ''rename'' :: request \<Rightarrow> node exec \<Rightarrow> _"
  let ?fd = "\<lparr> r_mount = dist_mount, r_adapter = Some (systemAdapter sample_lib sample_core 0) \<rparr>"
  let ?fh = "\<lparr> r_mount = home_mount, r_adapter = Some (systemAdapter sample_lib sample_core 0) \<rparr>"
  have ro: "readOnly (attributes dist_mount)" by (simp add: sample_defs)
  have nm: "name dist_mount = ''meeseOS''" by (simp add: sample_defs)
  note inst1 = readOnly_mount_rejects_mutation
               [OF ro, where req = ?r1 and meth = "''writefile''" and strict = None
                  and route = "''writefile''" and L = sample_lib and svc = sample_service
                  and h = ?h1 and tgt = "TStr ''meeseOS:/index.html''" and found = ?fd
                  and ex = "start sample_fs"]
  have v1: "vfs sample_lib sample_service ''writefile'' = Some ?h1" by (rule vfs_writefile)
  have s1: "sanitize sample_lib (field ?r1 ''path'') = Inr (TStr ''meeseOS:/index.html'')" by code_simp
  have u1: "streamFromRequest (files_upload ?r1) = Inr (VStream ''new'')" by code_simp
  have m1: "mountpointResolver sample_service (target_string (TStr ''meeseOS:/index.html'')) = Inr ?fd"
    by (simp add: sample_defs mountpointResolver_def getPrefix_def createError_def Let_def)
  have c1: "checkMountpointPermission ?r1 ''writefile'' (RoBool True) None dist_mount
       = Inl (HttpError 403 (''Mountpoint '' @ quoted ''meeseOS'' @ '' is read-only''))"
    using inst1 nm by simp
  have c2: "?h1 ?r1 (start sample_fs)
       = (Inl (HttpError 403 (''Mountpoint '' @ quoted ''meeseOS'' @ '' is read-only'')), start sample_fs)"
    using inst1 nm v1 s1 u1 m1 by simp
  note inst2 = readOnly_mount_rejects_mutation
               [OF ro, where req = ?r2 and croute = "''rename''" and L = sample_lib
                  and svc = sample_service and ch = ?h2 and src = "TStr ''home:/f.txt''"
                  and dst = "TStr ''meeseOS:/f.txt''" and sm = ?fh and dm = ?fd
                  and ex = "start sample_fs"]
  have v2: "vfs sample_lib sample_service ''rename'' = Some ?h2" by (rule vfs_rename)
  have x2: "requestCross sample_lib ?r2 = Inr (TStr ''home:/f.txt'', TStr ''meeseOS:/f.txt'')"
    by code_simp
  have m2: "mountpointResolver sample_service (target_string (TStr ''home:/f.txt'')) = Inr ?fh"
           "mountpointResolver sample_service (target_string (TStr ''meeseOS:/f.txt'')) = Inr ?fd"
    by (simp_all add: sample_defs mountpointResolver_def getPrefix_def createError_def Let_def)
  have g2: "validateGroups (user_groups (session_user (req_session ?r2))) ''readfile'' home_mount
              (Some (strictGroups (attributes home_mount) \<noteq> Some False))"
    by code_simp
  have c3: "?h2 ?r2 (start sample_fs)
       = (Inl (HttpError 403 (''Mountpoint '' @ quoted ''meeseOS'' @ '' is read-only'')), start sample_fs)"
    using inst2 nm v2 x2 m2 g2 by simp
  let ?r3 = "sample_request [''admin''] [(''from'', VStr ''shared:/inbox''), (''to'', VStr ''meeseOS:/inbox'')]"
  let ?fo = "\<lparr> r_mount = shared_mount, r_adapter = Some (systemAdapter sample_lib sample_core 1) \<rparr>"
  note inst3 = readOnly_mount_rejects_mutation
               [OF ro, where req = ?r3 and croute = "''rename''" and L = sample_lib
                  and svc = sample_service and ch = ?h2 and src = "TStr ''shared:/inbox''"
                  and dst = "TStr ''meeseOS:/inbox''" and sm = ?fo and dm = ?fd
                  and ex = "start sample_fs"]
  have no: "name shared_mount = ''shared''" by (simp add: sample_defs)
  have x3: "requestCross sample_lib ?r3 = Inr (TStr ''shared:/inbox'', TStr ''meeseOS:/inbox'')"
    by code_simp
  have m3: "mountpointResolver sample_service (target_string (TStr ''shared:/inbox'')) = Inr ?fo"
           "mountpointResolver sample_service (target_string (TStr ''meeseOS:/inbox'')) = Inr ?fd"
    by (simp_all add: sample_defs mountpointResolver_def getPrefix_def createError_def Let_def)
  have g3: "\<not> validateGroups (user_groups (session_user (req_session ?r3))) ''readfile''
              shared_mount (Some (strictGroups (attributes shared_mount) \<noteq> Some False))"
    by code_simp
  have c4: "?h2 ?r3 (start sample_fs)
       = (Inl (HttpError 403 (''Permission was denied for '' @ quoted ''readfile''
                              @ '' in '' @ quoted ''shared'')), start sample_fs)"
    using inst3 no v2 x3 m3 g3 by simp
  have w1: "\<exists>h. vfs sample_lib sample_service ''writefile'' = Some h
          \<and> h ?r1 (start sample_fs)
            = (Inl (HttpError 403 (''Mountpoint '' @ quoted ''meeseOS'' @ '' is read-only'')),
               start sample_fs)"
    using v1 c2 by (intro exI conjI)
  have w2: "\<exists>h. vfs sample_lib sample_service ''rename'' = Some h
          \<and> h ?r2 (start sample_fs)
            = (Inl (HttpError 403 (''Mountpoint '' @ quoted ''meeseOS'' @ '' is read-only'')),
               start sample_fs)"
    using v2 c3 by (intro exI conjI)
  have w3: "\<exists>h. vfs sample_lib sample_service ''rename'' = Some h
          \<and> h ?r3 (start sample_fs)
            = (Inl (HttpError 403 (''Permission was denied for '' @ quoted ''readfile''
                                   @ '' in '' @ quoted ''shared'')),
               start sample_fs)"
    using v2 c4 by (intro exI conjI)
  from ro c1 w1 w2 w3 show ?thesis by (intro conjI)
qed

text \<open>
  The destination side of the claim as it was stated does not hold whatever the groups
  of the user. The mountpoint \<^verbatim>\<open>meeseOS\<close> is read-only and restricted to the group
  \<^verbatim>\<open>admin\<close>; the mountpoint \<^verbatim>\<open>shared\<close> is restricted to the group \<^verbatim>\<open>staff\<close>. A rename
  inside the read-only mountpoint by a user without groups is rejected by the group
  validation of the source, not with the read-only error, and so is a rename from
  \<^verbatim>\<open>shared\<close> into the read-only mountpoint by a user of the group \<^verbatim>\<open>admin\<close> only. The same
  rename by a user who passes the groups of the source gets the read-only error.
\<close>

theorem readOnly_destination_after_source_groups:
  "readOnly (attributes dist_mount)
   \<and> vfs sample_lib sample_service ''rename''
       = Some (createCrossRequest sample_lib sample_service ''rename'')
   \<and> createCrossRequest sample_lib sample_service ''rename''
         (sample_request []
            [(''from'', VStr ''meeseOS:/index.html''), (''to'', VStr ''meeseOS:/moved.html'')])
         (start sample_fs)
       = (Inl (HttpError 403 (''Permission was denied for '' @ quoted ''readfile'' @ '' in ''
                              @ quoted ''meeseOS'')),
          start sample_fs)
   \<and> createCrossRequest sample_lib sample_service ''rename''
         (sample_request [''admin'']
            [(''from'', VStr ''shared:/inbox''), (''to'', VStr ''meeseOS:/inbox'')])
         (start sample_fs)
       = (Inl (HttpError 403 (''Permission was denied for '' @ quoted ''readfile'' @ '' in ''
                              @ quoted ''shared'')),
          start sample_fs)
   \<and> createCrossRequest sample_lib sample_service ''rename''
         (sample_request [''admin'']
            [(''from'', VStr ''meeseOS:/index.html''), (''to'', VStr ''meeseOS:/moved.html'')])
         (start sample_fs)
       = (Inl (HttpError 403 (''Mountpoint '' @ quoted ''meeseOS'' @ '' is read-only'')),
          start sample_fs)"
proof -
  have ro: "readOnly (attributes dist_mount)" by (simp add: sample_defs)
  have route: "vfs sample_lib sample_service ''rename''
       = Some (createCrossRequest sample_lib sample_service ''rename'')"
    by (rule vfs_rename)
  have inside: "createCrossRequest sample_lib sample_service ''rename''
         (sample_request []
            [(''from'', VStr ''meeseOS:/index.html''), (''to'', VStr ''meeseOS:/moved.html'')])
         (start sample_fs)
       = (Inl (HttpError 403 (''Permission was denied for '' @ quoted ''readfile'' @ '' in ''
                              @ quoted ''meeseOS'')),
          start sample_fs)"
    by code_simp
  have onto: "createCrossRequest sample_lib sample_service ''rename''
         (sample_request [''admin'']
            [(''from'', VStr ''shared:/inbox''), (''to'', VStr ''meeseOS:/inbox'')])
         (start sample_fs)
       = (Inl (HttpError 403 (''Permission was denied for '' @ quoted ''readfile'' @ '' in ''
                              @ quoted ''shared'')),
          start sample_fs)"
    by code_simp
  have member: "createCrossRequest sample_lib sample_service ''rename''
         (sample_request [''admin'']
            [(''from'', VStr ''meeseOS:/index.html''), (''to'', VStr ''meeseOS:/moved.html'')])
         (start sample_fs)
       = (Inl (HttpError 403 (''Mountpoint '' @ quoted ''meeseOS'' @ '' is read-only'')),
          start sample_fs)"
    by code_simp
  from ro route inside onto member show ?thesis by (intro conjI)
qed

subsection \<open>Invalid addresses\<close>

lemma collect_error:
  "collect rs = Inl e \<Longrightarrow> Inl e \<in> set rs"
  by (induction rs rule: collect.induct) (auto split: sum.splits)

lemma collect_fails:
  "Inl e \<in> set rs \<Longrightarrow> \<exists>e'. collect rs = Inl e'"
  by (induction rs rule: collect.induct) (auto split: sum.splits)

lemma sanitize_error:
  "sanitize L v = Inl e \<Longrightarrow> \<exists>msg. e = TypeError msg"
proof (induction L v arbitrary: e rule: sanitize.induct)
  case (1 L ps)
  then obtain e' where c: "collect (map (sanitize L) ps) = Inl e'" and e: "e = e'"
    by (auto split: sum.splits)
  from c have "Inl e' \<in> set (map (sanitize L) ps)" by (rule collect_error)
  then obtain p where p: "p \<in> set ps" "sanitize L p = Inl e'" by auto
  from "1.IH" [OF p] e show ?case by simp
next
  case (2 L s)
  then show ?case
    by (auto simp: sanitizeString_def Let_def split: sum.splits option.splits)
qed auto

lemma sanitize_invalid_string:
  "\<not> valid_address x \<Longrightarrow> \<exists>msg. sanitize L (VStr x) = Inl (TypeError msg)"
  by (simp add: sanitizeString_invalid)

lemma sanitize_invalid_element:
  assumes "\<not> valid_address x" "VStr x \<in> set ps"
  shows "\<exists>msg. sanitize L (VArr ps) = Inl (TypeError msg)"
proof -
  from sanitize_invalid_string [OF assms(1), of L] obtain msg where
    m: "sanitize L (VStr x) = Inl (TypeError msg)" by blast
  from assms(2) have "sanitize L (VStr x) \<in> sanitize L ` set ps" by (rule imageI)
  then have "sanitize L (VStr x) \<in> set (map (sanitize L) ps)" by (simp only: set_map)
  with m have "Inl (TypeError msg) \<in> set (map (sanitize L) ps)" by simp
  from collect_fails [OF this] obtain e where c: "collect (map (sanitize L) ps) = Inl e" by blast
  then have s: "sanitize L (VArr ps) = Inl e" by simp
  from sanitize_error [OF s] s show ?thesis by auto
qed

lemma requestCross_error:
  "requestCross L req = Inl e \<Longrightarrow> \<exists>msg. e = TypeError msg"
  by (auto simp: requestCross_def split: sum.splits dest: sanitize_error)

lemma requestCross_invalid:
  assumes inv: "\<not> valid_address x"
      and f: "field req ''from'' = VStr x \<or> field req ''to'' = VStr x"
  shows "\<exists>msg. requestCross L req = Inl (TypeError msg)"
proof -
  obtain msg where m: "sanitize L (VStr x) = Inl (TypeError msg)"
    using sanitize_invalid_string [OF inv] by blast
  have "\<exists>e. requestCross L req = Inl e"
  proof (cases "sanitize L (field req ''from'')")
    case (Inl e)
    then show ?thesis by (simp add: requestCross_def)
  next
    case (Inr t)
    with f m have "field req ''to'' = VStr x" by auto
    with m Inr show ?thesis by (simp add: requestCross_def)
  qed
  then obtain e where e: "requestCross L req = Inl e" by blast
  from requestCross_error [OF e] e show ?thesis by auto
qed

lemma vfs_capabilities:
  "vfs L svc ''capabilities'' = Some (createRequest L svc requestPath ''capabilities'' (RoBool False) None)"
  by (simp add: vfs_def)
lemma vfs_realpath:
  "vfs L svc ''realpath'' = Some (createRequest L svc requestPath ''realpath'' (RoBool False) None)"
  by (simp add: vfs_def)
lemma vfs_stat:
  "vfs L svc ''stat'' = Some (createRequest L svc requestPath ''stat'' (RoBool False) None)"
  by (simp add: vfs_def)
lemma vfs_readdir:
  "vfs L svc ''readdir'' = Some (createRequest L svc requestPath ''readdir'' (RoBool False) None)"
  by (simp add: vfs_def)
lemma vfs_readfile:
  "vfs L svc ''readfile'' = Some (createRequest L svc requestPath ''readfile'' (RoBool False) None)"
  by (simp add: vfs_def)
lemma vfs_search:
  "vfs L svc ''search'' = Some (createRequest L svc requestSearch ''search'' (RoBool False) None)"
  by (simp add: vfs_def)
lemma vfs_archive:
  "vfs L svc ''archive'' = Some (createRequest L svc requestSelection ''archive'' (RoBool False) None)"
  by (simp add: vfs_def)

text \<open>The handler of a route, read off the table.\<close>

lemma vfs_handler:
  assumes "vfs L svc route = Some h" and "route = r" and "vfs L svc r = Some g"
  shows "h = g"
proof -
  from assms(1) have "vfs L svc r = Some h" unfolding assms(2) .
  then have "Some h = vfs L svc r" by (rule sym)
  also have "\<dots> = Some g" by (rule assms(3))
  finally show ?thesis by (simp only: option.inject)
qed

text \<open>The routes whose address is the field \<^verbatim>\<open>path\<close> use one of two getters.\<close>

lemma vfs_path_route:
  assumes r: "route \<in> {''capabilities'', ''realpath'', ''exists'', ''stat'', ''readdir'',
                        ''readfile'', ''writefile'', ''mkdir'', ''unlink'', ''touch''}"
      and v: "vfs L svc route = Some h"
  shows "\<exists>m ro resp. h = createRequest L svc requestPath m ro resp
                     \<or> h = createRequest L svc requestFile m ro resp"
  using r
proof (elim insertE emptyE)
  assume 1: "route = ''capabilities''"
  from vfs_handler [OF v 1 vfs_capabilities] show ?thesis by (intro exI disjI1)
next
  assume 1: "route = ''realpath''"
  from vfs_handler [OF v 1 vfs_realpath] show ?thesis by (intro exI disjI1)
next
  assume 1: "route = ''exists''"
  from vfs_handler [OF v 1 vfs_exists] show ?thesis by (intro exI disjI1)
next
  assume 1: "route = ''stat''"
  from vfs_handler [OF v 1 vfs_stat] show ?thesis by (intro exI disjI1)
next
  assume 1: "route = ''readdir''"
  from vfs_handler [OF v 1 vfs_readdir] show ?thesis by (intro exI disjI1)
next
  assume 1: "route = ''readfile''"
  from vfs_handler [OF v 1 vfs_readfile] show ?thesis by (intro exI disjI1)
next
  assume 1: "route = ''writefile''"
  from vfs_handler [OF v 1 vfs_writefile] show ?thesis by (intro exI disjI2)
next
  assume 1: "route = ''mkdir''"
  from vfs_handler [OF v 1 vfs_mkdir] show ?thesis by (intro exI disjI1)
next
  assume 1: "route = ''unlink''"
  from vfs_handler [OF v 1 vfs_unlink] show ?thesis by (intro exI disjI1)
next
  assume 1: "route = ''touch''"
  from vfs_handler [OF v 1 vfs_touch] show ?thesis by (intro exI disjI1)
qed

lemma path_getter_invalid:
  assumes inv: "\<not> valid_address x" and f: "field req ''path'' = VStr x"
  shows "(\<exists>msg. requestPath L req = Inl (TypeError msg))
       \<and> (\<exists>msg. requestFile L req = Inl (TypeError msg))"
proof -
  from sanitize_invalid_string [OF inv, of L] obtain msg where
    m: "sanitize L (VStr x) = Inl (TypeError msg)" by blast
  with f show ?thesis by (simp add: requestPath_def requestFile_def)
qed

text \<open>
  Claim C10. \<^verbatim>\<open>sanitize\<close> does not return for a string that does not begin with a
  non-empty prefix of word characters, hyphens and underscores followed by a colon: it
  throws a TypeError. A request that carries such a string as its address (in the field
  \<^verbatim>\<open>path\<close>, \<^verbatim>\<open>root\<close>, \<^verbatim>\<open>from\<close> or \<^verbatim>\<open>to\<close>, or as an entry of \<^verbatim>\<open>selection\<close>) rejects with
  the TypeError on every route, whatever the mountpoints are, with no adapter call.
\<close>

theorem invalid_address_rejected:
  assumes inv: "\<not> valid_address x"
  shows "sanitizeString L x = Inl (TypeError ''Cannot read properties of undefined (reading split)'')
   \<and> (vfs L svc route = Some h
       \<and> ((route \<in> {''capabilities'', ''realpath'', ''exists'', ''stat'', ''readdir'',
                      ''readfile'', ''writefile'', ''mkdir'', ''unlink'', ''touch''}
            \<and> field req ''path'' = VStr x)
          \<or> (route = ''search'' \<and> field req ''root'' = VStr x)
          \<or> (route \<in> {''copy'', ''rename''}
              \<and> (field req ''from'' = VStr x \<or> field req ''to'' = VStr x))
          \<or> (route = ''archive'' \<and> (\<exists>ps. field req ''selection'' = VArr ps \<and> VStr x \<in> set ps)))
      \<longrightarrow> (\<exists>msg. h req ex = (Inl (TypeError msg), ex)))"
proof (intro conjI impI)
  show "sanitizeString L x = Inl (TypeError ''Cannot read properties of undefined (reading split)'')"
    using inv by (rule sanitizeString_invalid)
next
  assume a: "vfs L svc route = Some h
       \<and> ((route \<in> {''capabilities'', ''realpath'', ''exists'', ''stat'', ''readdir'',
                      ''readfile'', ''writefile'', ''mkdir'', ''unlink'', ''touch''}
            \<and> field req ''path'' = VStr x)
          \<or> (route = ''search'' \<and> field req ''root'' = VStr x)
          \<or> (route \<in> {''copy'', ''rename''}
              \<and> (field req ''from'' = VStr x \<or> field req ''to'' = VStr x))
          \<or> (route = ''archive'' \<and> (\<exists>ps. field req ''selection'' = VArr ps \<and> VStr x \<in> set ps)))"
  then have v: "vfs L svc route = Some h" by (rule conjunct1)
  from a have d: "(route \<in> {''capabilities'', ''realpath'', ''exists'', ''stat'', ''readdir'',
                      ''readfile'', ''writefile'', ''mkdir'', ''unlink'', ''touch''}
            \<and> field req ''path'' = VStr x)
          \<or> (route = ''search'' \<and> field req ''root'' = VStr x)
          \<or> (route \<in> {''copy'', ''rename''}
              \<and> (field req ''from'' = VStr x \<or> field req ''to'' = VStr x))
          \<or> (route = ''archive'' \<and> (\<exists>ps. field req ''selection'' = VArr ps \<and> VStr x \<in> set ps))"
    by (rule conjunct2)
  then show "\<exists>msg. h req ex = (Inl (TypeError msg), ex)"
  proof (elim disjE)
    assume p: "route \<in> {''capabilities'', ''realpath'', ''exists'', ''stat'', ''readdir'',
                      ''readfile'', ''writefile'', ''mkdir'', ''unlink'', ''touch''}
            \<and> field req ''path'' = VStr x"
    from vfs_path_route [OF conjunct1 [OF p] v] obtain m ro resp where
      h: "h = createRequest L svc requestPath m ro resp
          \<or> h = createRequest L svc requestFile m ro resp" by blast
    from path_getter_invalid [OF inv conjunct2 [OF p], of L] obtain m1 m2 where
      g: "requestPath L req = Inl (TypeError m1)" "requestFile L req = Inl (TypeError m2)" by blast
    from h show ?thesis
    proof
      assume "h = createRequest L svc requestPath m ro resp"
      with createRequest_getter_rejects [where getter = requestPath and L = L and req = req and svc = svc and ex = ex, OF g(1)]
      show ?thesis by simp
    next
      assume "h = createRequest L svc requestFile m ro resp"
      with createRequest_getter_rejects [where getter = requestFile and L = L and req = req and svc = svc and ex = ex, OF g(2)]
      show ?thesis by simp
    qed
  next
    assume p: "route = ''search'' \<and> field req ''root'' = VStr x"
    have h: "h = createRequest L svc requestSearch ''search'' (RoBool False) None"
      by (rule vfs_handler [OF v conjunct1 [OF p] vfs_search])
    from sanitize_invalid_string [OF inv, of L] conjunct2 [OF p] obtain msg where
      "requestSearch L req = Inl (TypeError msg)" by (auto simp: requestSearch_def)
    from createRequest_getter_rejects [where getter = requestSearch and L = L and req = req and svc = svc and ex = ex, OF this] h
    show ?thesis by simp
  next
    assume p: "route \<in> {''copy'', ''rename''}
              \<and> (field req ''from'' = VStr x \<or> field req ''to'' = VStr x)"
    have h: "h = createCrossRequest L svc route" using conjunct1 [OF p] v by (rule vfs_cross)
    from requestCross_invalid [OF inv conjunct2 [OF p], of L] obtain msg where
      "requestCross L req = Inl (TypeError msg)" by blast
    from cross_getter_rejects [where svc = svc and ex = ex and meth = route, OF this] h
    show ?thesis by simp
  next
    assume p: "route = ''archive'' \<and> (\<exists>ps. field req ''selection'' = VArr ps \<and> VStr x \<in> set ps)"
    have h: "h = createRequest L svc requestSelection ''archive'' (RoBool False) None"
      by (rule vfs_handler [OF v conjunct1 [OF p] vfs_archive])
    from conjunct2 [OF p] obtain ps where ps: "field req ''selection'' = VArr ps" "VStr x \<in> set ps"
      by blast
    from sanitize_invalid_element [OF inv ps(2), of L] ps(1) obtain msg where
      "requestSelection L req = Inl (TypeError msg)" by (auto simp: requestSelection_def)
    from createRequest_getter_rejects [where getter = requestSelection and L = L and req = req and svc = svc and ex = ex, OF this] h
    show ?thesis by simp
  qed
qed

text \<open>A path without a colon and the empty string.\<close>

theorem invalid_address_rejected_witness:
  "\<not> valid_address ''a/b''
   \<and> sanitizeString sample_lib ''a/b''
       = Inl (TypeError ''Cannot read properties of undefined (reading split)'')
   \<and> \<not> valid_address []
   \<and> sanitizeString sample_lib []
       = Inl (TypeError ''Cannot read properties of undefined (reading split)'')
   \<and> (\<exists>h msg. vfs sample_lib sample_service ''readfile'' = Some h
          \<and> field (sample_request [] [(''path'', VStr ''a/b'')]) ''path'' = VStr ''a/b''
          \<and> h (sample_request [] [(''path'', VStr ''a/b'')]) (start sample_fs)
              = (Inl (TypeError msg), start sample_fs))"
proof -
  let ?r = "sample_request [] [(''path'', VStr ''a/b'')]"
  let ?h = "createRequest sample_lib sample_service requestPath ''readfile'' (RoBool False) None"
  have i1: "\<not> valid_address ''a/b''" by (simp add: valid_address_iff is_word_char_def)
  have i2: "\<not> valid_address []" by (simp add: valid_address_iff)
  have f: "field ?r ''path'' = VStr ''a/b''" by (simp add: field_def sample_request_def)
  have v: "vfs sample_lib sample_service ''readfile'' = Some ?h" by (rule vfs_readfile)
  note t1 = invalid_address_rejected [OF i1, where L = sample_lib and svc = sample_service
              and route = "''readfile''" and h = ?h and req = ?r and ex = "start sample_fs"]
  note t2 = invalid_address_rejected [OF i2, where L = sample_lib]
  from t1 have s1: "sanitizeString sample_lib ''a/b''
       = Inl (TypeError ''Cannot read properties of undefined (reading split)'')" by (rule conjunct1)
  from t2 have s2: "sanitizeString sample_lib []
       = Inl (TypeError ''Cannot read properties of undefined (reading split)'')" by (rule conjunct1)
  from t1 v f have "\<exists>msg. ?h ?r (start sample_fs) = (Inl (TypeError msg), start sample_fs)"
    by simp
  with i1 s1 i2 s2 v f show ?thesis by blast
qed

subsection \<open>Result shapes\<close>

lemma createRequest_resolves:
  assumes "createRequest L svc getter meth ro (Some f) req ex = (Inr v, ex')"
      and "meth \<noteq> ''search''"
  shows "\<exists>tgt rest found a g result w.
           getter L req = Inr (tgt, rest) \<and>
           mountpointResolver svc (target_string tgt) = Inr found \<and>
           r_adapter found = Some a \<and> methods a meth = Some g \<and>
           g [r_mount found] (target_val tgt # rest @ [VObj (createOptions L req)]) (world ex)
             = (Inr result, w) \<and>
           v = f result"
  using assms
  by (auto simp: createRequest_def vfsMethodWrapper_def invoke_def Let_def
           split: sum.splits prod.splits option.splits if_splits)

lemma writefile_result:
  "writefile L c mnt args fs = (Inr result, fs') \<Longrightarrow> \<exists>b. result = VBool b"
  by (auto simp: writefile_def Let_def
           split: sum.splits node.splits option.splits jsval.splits if_splits)

text \<open>
  Claim C7. \<^verbatim>\<open>respondNumber\<close> returns a number as it is and \<^verbatim>\<open>-1\<close> for any other value;
  \<^verbatim>\<open>respondBoolean\<close> returns a boolean, the truthiness of its argument. What the route
  \<^verbatim>\<open>writefile\<close> responds is \<^verbatim>\<open>respondNumber\<close> of the result of the adapter, hence a number;
  what \<^verbatim>\<open>exists\<close>, \<^verbatim>\<open>mkdir\<close>, \<^verbatim>\<open>unlink\<close> and \<^verbatim>\<open>touch\<close> respond is a boolean. The system
  adapter resolves \<^verbatim>\<open>writefile\<close> with a boolean, never with a number, so the route
  responds \<^verbatim>\<open>-1\<close> for it.
\<close>

theorem result_normalization:
  "respondNumber (VNum n) = VNum n
   \<and> ((\<forall>k. r \<noteq> VNum k) \<longrightarrow> respondNumber r = VNum (Fin (- 1)))
   \<and> respondBoolean r = VBool (truthy r)
   \<and> (vfs L svc ''writefile'' = Some h \<and> h req ex = (Inr v, ex')
      \<longrightarrow> (\<exists>tgt rest found a g result w.
             requestFile L req = Inr (tgt, rest) \<and>
             mountpointResolver svc (target_string tgt) = Inr found \<and>
             r_adapter found = Some a \<and> methods a ''writefile'' = Some g \<and>
             g [r_mount found] (target_val tgt # rest @ [VObj (createOptions L req)]) (world ex)
               = (Inr result, w) \<and>
             v = respondNumber result \<and> (\<exists>k. v = VNum k)))
   \<and> (route \<in> {''exists'', ''mkdir'', ''unlink'', ''touch''} \<and> vfs L svc route = Some hb
       \<and> hb req ex = (Inr vb, ex')
      \<longrightarrow> (\<exists>b. vb = VBool b))
   \<and> (writefile L c mnt args fs = (Inr res, fs') \<longrightarrow> respondNumber res = VNum (Fin (- 1)))"
proof (intro conjI impI)
  show "respondNumber (VNum n) = VNum n" by (simp add: respondNumber_def)
next
  assume "\<forall>k. r \<noteq> VNum k"
  then show "respondNumber r = VNum (Fin (- 1))"
    by (cases r) (simp_all add: respondNumber_def)
next
  show "respondBoolean r = VBool (truthy r)"
    by (cases r) (simp_all add: respondBoolean_def)
next
  assume a: "vfs L svc ''writefile'' = Some h \<and> h req ex = (Inr v, ex')"
  have h: "h = createRequest L svc requestFile ''writefile'' (RoBool True) (Some respondNumber)"
    by (rule vfs_handler [OF conjunct1 [OF a] refl vfs_writefile])
  from conjunct2 [OF a] have
    "createRequest L svc requestFile ''writefile'' (RoBool True) (Some respondNumber) req ex
       = (Inr v, ex')" unfolding h .
  from createRequest_resolves [where getter = requestFile and L = L and req = req, OF this]
  obtain tgt rest found a g result w where
    r: "requestFile L req = Inr (tgt, rest)"
       "mountpointResolver svc (target_string tgt) = Inr found"
       "r_adapter found = Some a" "methods a ''writefile'' = Some g"
       "g [r_mount found] (target_val tgt # rest @ [VObj (createOptions L req)]) (world ex)
             = (Inr result, w)"
       "v = respondNumber result"
    by auto
  have "\<exists>k. respondNumber result = VNum k"
    by (cases result) (simp_all add: respondNumber_def)
  with r show "\<exists>tgt rest found a g result w.
             requestFile L req = Inr (tgt, rest) \<and>
             mountpointResolver svc (target_string tgt) = Inr found \<and>
             r_adapter found = Some a \<and> methods a ''writefile'' = Some g \<and>
             g [r_mount found] (target_val tgt # rest @ [VObj (createOptions L req)]) (world ex)
               = (Inr result, w) \<and>
             v = respondNumber result \<and> (\<exists>k. v = VNum k)"
    by blast
next
  assume a: "route \<in> {''exists'', ''mkdir'', ''unlink'', ''touch''} \<and> vfs L svc route = Some hb
       \<and> hb req ex = (Inr vb, ex')"
  from a have r: "route \<in> {''exists'', ''mkdir'', ''unlink'', ''touch''}" by (rule conjunct1)
  from a have v: "vfs L svc route = Some hb" by blast
  from a have e: "hb req ex = (Inr vb, ex')" by blast
  have "\<exists>ro. hb = createRequest L svc requestPath route ro (Some respondBoolean)"
    using r
  proof (elim insertE emptyE)
    assume 1: "route = ''exists''"
    from vfs_handler [OF v 1 vfs_exists] 1 show ?thesis by blast
  next
    assume 1: "route = ''mkdir''"
    from vfs_handler [OF v 1 vfs_mkdir] 1 show ?thesis by blast
  next
    assume 1: "route = ''unlink''"
    from vfs_handler [OF v 1 vfs_unlink] 1 show ?thesis by blast
  next
    assume 1: "route = ''touch''"
    from vfs_handler [OF v 1 vfs_touch] 1 show ?thesis by blast
  qed
  then obtain ro where h: "hb = createRequest L svc requestPath route ro (Some respondBoolean)"
    by blast
  from r have ns: "route \<noteq> ''search''" by auto
  from e have "createRequest L svc requestPath route ro (Some respondBoolean) req ex = (Inr vb, ex')"
    unfolding h .
  from createRequest_resolves [where getter = requestPath and L = L and req = req, OF this ns]
  obtain result where "vb = respondBoolean result" by blast
  then show "\<exists>b. vb = VBool b" by (cases result) (auto simp: respondBoolean_def)
next
  assume "writefile L c mnt args fs = (Inr res, fs')"
  from writefile_result [OF this] show "respondNumber res = VNum (Fin (- 1))"
    by (auto simp: respondNumber_def)
qed


text \<open>
  A successful write through the system adapter is answered by \<^verbatim>\<open>-1\<close>, and \<^verbatim>\<open>exists\<close> by
  a boolean.
\<close>

theorem result_normalization_witness:
  "(\<forall>k. VBool True \<noteq> VNum k) \<and> respondNumber (VBool True) = VNum (Fin (- 1))
   \<and> (\<exists>h ex'. vfs sample_lib sample_service ''writefile'' = Some h
         \<and> h (sample_request [] [(''path'', VStr ''home:/x'')]) (start sample_fs)
             = (Inr (VNum (Fin (- 1))), ex')
         \<and> stat_node (world ex') [''data'', ''alice'', ''x''] = Inr (File ''new''))
   \<and> (\<exists>h ex'. vfs sample_lib sample_service ''exists'' = Some h
         \<and> h (sample_request [] [(''path'', VStr ''home:/f.txt'')]) (start sample_fs)
             = (Inr (VBool True), ex'))"
proof -
  let ?r1 = "sample_request [] [(''path'', VStr ''home:/x'')]"
  let ?r2 = "sample_request [] [(''path'', VStr ''home:/f.txt'')]"
  let ?h1 = "createRequest sample_lib sample_service requestFile ''writefile'' (RoBool True)
               (Some respondNumber)"
  let ?h2 = "createRequest sample_lib sample_service requestPath ''exists'' (RoBool False)
               (Some respondBoolean)"
  have n: "\<forall>k. VBool True \<noteq> VNum k" by simp
  have v1: "vfs sample_lib sample_service ''writefile'' = Some ?h1" by (rule vfs_writefile)
  have v2: "vfs sample_lib sample_service ''exists'' = Some ?h2" by (rule vfs_exists)
  obtain v ex1 where e1: "?h1 ?r1 (start sample_fs) = (v, ex1)" by (cases "?h1 ?r1 (start sample_fs)")
  have w1: "fst (?h1 ?r1 (start sample_fs)) = Inr (VNum (Fin (- 1)))"
           "stat_node (world (snd (?h1 ?r1 (start sample_fs)))) [''data'', ''alice'', ''x'']
              = Inr (File ''new'')"
    by code_simp+
  have w2: "fst (?h2 ?r2 (start sample_fs)) = Inr (VBool True)" by code_simp
  note t = result_normalization [where r = "VBool True" and L = sample_lib and svc = sample_service
             and h = ?h1 and req = ?r1 and ex = "start sample_fs"]
  from t n have c1: "respondNumber (VBool True) = VNum (Fin (- 1))" by blast
  from w1 have c2: "?h1 ?r1 (start sample_fs) = (Inr (VNum (Fin (- 1))), snd (?h1 ?r1 (start sample_fs)))"
    by (simp add: prod_eq_iff)
  from w2 have c3: "?h2 ?r2 (start sample_fs) = (Inr (VBool True), snd (?h2 ?r2 (start sample_fs)))"
    by (simp add: prod_eq_iff)
  from n c1 v1 c2 w1(2) v2 c3 show ?thesis by blast
qed

subsection \<open>The session of the options\<close>

lemma map_of_set_prop_same [simp]: "map_of (set_prop k v kvs) k = Some v"
  by (induction kvs) auto

lemma get_prop_set_prop [simp]: "get_prop (set_prop k v kvs) k = v"
  by (simp add: get_prop_def)









subsection \<open>Addresses without mountpoint\<close>

text \<open>
  Claim C3, evaluated on a request the dispatcher accepts although one of its addresses
  has no mountpoint. The resolver rejects the address \<^verbatim>\<open>zzzz:/docs\<close> with the 403 error
  (see also \<open>resolver_not_found\<close>). An \<^verbatim>\<open>archive\<close> request with the selection
  \<^verbatim>\<open>["home:/f.txt", "zzzz:/docs"]\<close> resolves the mountpoint of the printed array, which is
  the one of the first address; the second address is read below the root of that mount
  and is compressed with the first. The request resolves \<^verbatim>\<open>true\<close>.
\<close>

theorem archive_unregistered_selection:
  "mountpointResolver sample_service ''zzzz:/docs''
     = Inl (HttpError 403 (''Mountpoint not found for '' @ quoted ''zzzz''))
   \<and> sanitize sample_lib (VArr [VStr ''home:/f.txt'', VStr ''zzzz:/docs''])
     = Inr (TArr [TStr ''home:/f.txt'', TStr ''zzzz:/docs''])
   \<and> fst (createRequest sample_lib sample_service requestSelection ''archive'' (RoBool False) None
           (sample_request [] [(''selection'', VArr [VStr ''home:/f.txt'', VStr ''zzzz:/docs''])])
           (start sample_fs))
     = Inr (VBool True)
   \<and> calls (snd (createRequest sample_lib sample_service requestSelection ''archive''
           (RoBool False) None
           (sample_request [] [(''selection'', VArr [VStr ''home:/f.txt'', VStr ''zzzz:/docs''])])
           (start sample_fs)))
     = [(0, ''archive'')]
   \<and> stat_node (world (snd (createRequest sample_lib sample_service requestSelection ''archive''
           (RoBool False) None
           (sample_request [] [(''selection'', VArr [VStr ''home:/f.txt'', VStr ''zzzz:/docs''])])
           (start sample_fs)))) [''data'', ''alice'', ''f.txt.zip'']
     = Inr (File ''f.txt=hello;docs/a.txt=A;docs/b.txt=B;'')"
proof -
  have 1: "mountpointResolver sample_service ''zzzz:/docs''
     = Inl (HttpError 403 (''Mountpoint not found for '' @ quoted ''zzzz''))"
    by (simp add: sample_defs mountpointResolver_def getPrefix_def createError_def Let_def)
  have 2: "sanitize sample_lib (VArr [VStr ''home:/f.txt'', VStr ''zzzz:/docs''])
     = Inr (TArr [TStr ''home:/f.txt'', TStr ''zzzz:/docs''])"
    by code_simp
  have 3: "fst (createRequest sample_lib sample_service requestSelection ''archive'' (RoBool False) None
           (sample_request [] [(''selection'', VArr [VStr ''home:/f.txt'', VStr ''zzzz:/docs''])])
           (start sample_fs))
     = Inr (VBool True)"
    by code_simp
  have 4: "calls (snd (createRequest sample_lib sample_service requestSelection ''archive''
           (RoBool False) None
           (sample_request [] [(''selection'', VArr [VStr ''home:/f.txt'', VStr ''zzzz:/docs''])])
           (start sample_fs)))
     = [(0, ''archive'')]"
    by code_simp
  have 5: "stat_node (world (snd (createRequest sample_lib sample_service requestSelection ''archive''
           (RoBool False) None
           (sample_request [] [(''selection'', VArr [VStr ''home:/f.txt'', VStr ''zzzz:/docs''])])
           (start sample_fs)))) [''data'', ''alice'', ''f.txt.zip'']
     = Inr (File ''f.txt=hello;docs/a.txt=A;docs/b.txt=B;'')"
    by code_simp
  from 1 2 3 4 5 show ?thesis by (intro conjI)
qed

subsection \<open>Rename between adapters\<close>

text \<open>
  Claim C5, evaluated on a rename between two adapters whose destination is an existing
  directory. The adapters are two instances of the system adapter. \<^verbatim>\<open>writefile\<close> refuses
  the write and resolves \<^verbatim>\<open>false\<close>; the dispatcher calls \<^verbatim>\<open>unlink\<close> on the source all the
  same. At the end the source is gone, the destination is the empty directory it was, and
  the request resolves \<^verbatim>\<open>false\<close>. The rename of the adapter itself, on the same paths,
  fails with \<^verbatim>\<open>EISDIR\<close> and changes nothing.
\<close>

theorem cross_rename_unlinks_after_refused_write:
  "fst (createCrossRequest sample_lib sample_service ''rename''
          (sample_request [''staff''] [(''from'', VStr ''home:/f.txt''), (''to'', VStr ''shared:/inbox'')])
          (start sample_fs))
     = Inr (VBool False)
   \<and> calls (snd (createCrossRequest sample_lib sample_service ''rename''
          (sample_request [''staff''] [(''from'', VStr ''home:/f.txt''), (''to'', VStr ''shared:/inbox'')])
          (start sample_fs)))
     = [(0, ''readfile''), (1, ''writefile''), (0, ''unlink'')]
   \<and> stat_node sample_fs [''data'', ''alice'', ''f.txt''] = Inr (File ''hello'')
   \<and> stat_node (world (snd (createCrossRequest sample_lib sample_service ''rename''
          (sample_request [''staff''] [(''from'', VStr ''home:/f.txt''), (''to'', VStr ''shared:/inbox'')])
          (start sample_fs)))) [''data'', ''alice'', ''f.txt'']
     = Inl ''ENOENT''
   \<and> stat_node (world (snd (createCrossRequest sample_lib sample_service ''rename''
          (sample_request [''staff''] [(''from'', VStr ''home:/f.txt''), (''to'', VStr ''shared:/inbox'')])
          (start sample_fs)))) [''data'', ''shared'', ''inbox'']
     = Inr (Dir [])
   \<and> rename sample_lib sample_core home_mount shared_mount
         [VStr ''home:/f.txt'', VStr ''shared:/inbox'',
          VObj (createOptions sample_lib
            (sample_request [''staff''] [(''from'', VStr ''home:/f.txt''), (''to'', VStr ''shared:/inbox'')]))]
         sample_fs
     = (Inl (SysError ''EISDIR'' ''/data/alice/f.txt''), sample_fs)"
proof -
  have outcome: "fst (createCrossRequest sample_lib sample_service ''rename''
          (sample_request [''staff''] [(''from'', VStr ''home:/f.txt''), (''to'', VStr ''shared:/inbox'')])
          (start sample_fs))
     = Inr (VBool False)"
    by code_simp
  have log: "calls (snd (createCrossRequest sample_lib sample_service ''rename''
          (sample_request [''staff''] [(''from'', VStr ''home:/f.txt''), (''to'', VStr ''shared:/inbox'')])
          (start sample_fs)))
     = [(0, ''readfile''), (1, ''writefile''), (0, ''unlink'')]"
    by code_simp
  have before: "stat_node sample_fs [''data'', ''alice'', ''f.txt''] = Inr (File ''hello'')"
    by code_simp
  have source_gone: "stat_node (world (snd (createCrossRequest sample_lib sample_service ''rename''
          (sample_request [''staff''] [(''from'', VStr ''home:/f.txt''), (''to'', VStr ''shared:/inbox'')])
          (start sample_fs)))) [''data'', ''alice'', ''f.txt'']
     = Inl ''ENOENT''"
    by code_simp
  have destination: "stat_node (world (snd (createCrossRequest sample_lib sample_service ''rename''
          (sample_request [''staff''] [(''from'', VStr ''home:/f.txt''), (''to'', VStr ''shared:/inbox'')])
          (start sample_fs)))) [''data'', ''shared'', ''inbox'']
     = Inr (Dir [])"
    by code_simp
  have native: "rename sample_lib sample_core home_mount shared_mount
         [VStr ''home:/f.txt'', VStr ''shared:/inbox'',
          VObj (createOptions sample_lib
            (sample_request [''staff''] [(''from'', VStr ''home:/f.txt''), (''to'', VStr ''shared:/inbox'')]))]
         sample_fs
     = (Inl (SysError ''EISDIR'' ''/data/alice/f.txt''), sample_fs)"
    by code_simp
  from outcome log before source_gone destination native show ?thesis by (intro conjI)
qed

subsection \<open>Idempotence of sanitize\<close>

lemma split_on_not_Nil [simp]: "split_on c s \<noteq> []"
  by (induction s) (auto split: list.splits)

lemma join_Cons: "join sep (x # xs) = (if xs = [] then x else x @ sep @ join sep xs)"
  by (cases xs) auto

lemma join_split_on: "join [c] (split_on c s) = s"
proof (induction s)
  case Nil then show ?case by simp
next
  case (Cons a s)
  obtain y ys where y: "split_on c s = y # ys" by (cases "split_on c s") auto
  with Cons show ?case by (auto simp: join_Cons)
qed

lemma split_on_no_sep: "c \<notin> set u \<Longrightarrow> split_on c u = [u]"
  by (induction u) (auto split: list.splits)

lemma split_on_append_sep:
  "c \<notin> set u \<Longrightarrow> split_on c (u @ c # s) = u # split_on c s"
  by (induction u) (auto split: list.splits)

lemma split_on_join:
  assumes "us \<noteq> []" "\<forall>u \<in> set us. c \<notin> set u"
  shows "split_on c (join [c] us) = us"
  using assms
proof (induction us)
  case Nil then show ?case by simp
next
  case (Cons u us)
  show ?case
  proof (cases "us = []")
    case True
    with Cons.prems show ?thesis by (simp add: split_on_no_sep)
  next
    case False
    with Cons have "split_on c (join [c] us) = us" by simp
    with False Cons.prems show ?thesis by (simp add: join_Cons split_on_append_sep)
  qed
qed

lemma collapse_slashes_idem [simp]:
  "collapse_slashes (collapse_slashes s) = collapse_slashes s"
proof (induction s rule: collapse_slashes.induct)
  case (3 a b cs)
  show ?case
  proof (cases "a = CHR ''/'' \<and> b = CHR ''/''")
    case True with 3 show ?thesis by simp
  next
    case False
    obtain d ds where d: "collapse_slashes (b # cs) = d # ds" "d = b"
      by (cases "collapse_slashes (b # cs)") (use hd_collapse_slashes [of "b # cs"] in \<open>auto simp: \<close>)
    with False 3 show ?thesis by auto
  qed
qed simp_all

lemma set_collapse_slashes: "set (collapse_slashes s) \<subseteq> set s"
  by (induction s rule: collapse_slashes.induct) auto

lemma split_on_Cons_other:
  "x \<noteq> c \<Longrightarrow> split_on c (x # s) = (x # hd (split_on c s)) # tl (split_on c s)"
  by (cases "split_on c s") auto

lemma split_on_collapse:
  "hd (split_on CHR ''/'' (collapse_slashes s)) = hd (split_on CHR ''/'' s)
   \<and> set (tl (split_on CHR ''/'' (collapse_slashes s))) \<subseteq> set (tl (split_on CHR ''/'' s))"
proof (induction s rule: collapse_slashes.induct)
  case 1 then show ?case by simp
next
  case (2 a) then show ?case by simp
next
  case (3 a b cs)
  let ?w = "collapse_slashes (b # cs)"
  have nn: "split_on CHR ''/'' ?w \<noteq> []" "split_on CHR ''/'' (b # cs) \<noteq> []"
    by (rule split_on_not_Nil)+
  show ?case
  proof (cases "a = CHR ''/''")
    case False
    then have c: "collapse_slashes (a # b # cs) = a # ?w" by simp
    from False 3 show ?thesis
      unfolding c by (simp add: split_on_Cons_other del: collapse_slashes.simps split_on.simps)
  next
    case a: True
    show ?thesis
    proof (cases "b = CHR ''/''")
      case True
      with a have c: "collapse_slashes (a # b # cs) = ?w" by simp
      from 3(1) a True have ih: "hd (split_on CHR ''/'' ?w) = hd (split_on CHR ''/'' (b # cs))"
        "set (tl (split_on CHR ''/'' ?w)) \<subseteq> set (tl (split_on CHR ''/'' (b # cs)))" by simp_all
      from True have s1: "split_on CHR ''/'' (b # cs) = [] # split_on CHR ''/'' cs" by simp
      from a True have s2: "split_on CHR ''/'' (a # b # cs) = [] # [] # split_on CHR ''/'' cs" by simp
      from ih s1 show ?thesis unfolding c s2 by auto
    next
      case False
      with a have c: "collapse_slashes (a # b # cs) = a # ?w" by simp
      from 3(2) a False have ih: "hd (split_on CHR ''/'' ?w) = hd (split_on CHR ''/'' (b # cs))"
        "set (tl (split_on CHR ''/'' ?w)) \<subseteq> set (tl (split_on CHR ''/'' (b # cs)))" by simp_all
      from a have s1: "split_on CHR ''/'' (a # ?w) = [] # split_on CHR ''/'' ?w" by simp
      from a have s2: "split_on CHR ''/'' (a # b # cs) = [] # split_on CHR ''/'' (b # cs)" by simp
      have "set (split_on CHR ''/'' ?w) \<subseteq> set (split_on CHR ''/'' (b # cs))"
      proof -
        have "set (split_on CHR ''/'' ?w)
              = insert (hd (split_on CHR ''/'' ?w)) (set (tl (split_on CHR ''/'' ?w)))"
          using nn(1) by (cases "split_on CHR ''/'' ?w") auto
        moreover have "set (split_on CHR ''/'' (b # cs))
              = insert (hd (split_on CHR ''/'' (b # cs))) (set (tl (split_on CHR ''/'' (b # cs))))"
          using nn(2) by (cases "split_on CHR ''/'' (b # cs)") auto
        ultimately show ?thesis using ih by auto
      qed
      then show ?thesis unfolding c s1 s2 by simp
    qed
  qed
qed

lemma set_split_on_collapse:
  "set (split_on CHR ''/'' (collapse_slashes s)) \<subseteq> set (split_on CHR ''/'' s)"
proof -
  let ?a = "split_on CHR ''/'' (collapse_slashes s)" and ?b = "split_on CHR ''/'' s"
  have "set ?a = insert (hd ?a) (set (tl ?a))" by (cases ?a) auto
  moreover have "set ?b = insert (hd ?b) (set (tl ?b))" by (cases ?b) auto
  ultimately show ?thesis using split_on_collapse [of s] by auto
qed

lemma set_join: "set (join sep us) \<subseteq> set sep \<union> (\<Union>u \<in> set us. set u)"
  by (induction sep us rule: join.induct) auto

lemma sane_fixed:
  assumes st: "\<forall>t \<in> set segs. stable_segment L t" and ne: "segs \<noteq> []"
  defines "sane \<equiv> collapse_slashes (join ''/'' (map (sanitizeFilename L) segs))"
  shows "collapse_slashes (join ''/'' (map (sanitizeFilename L) (split_on CHR ''/'' sane))) = sane"
    and "\<forall>c \<in> set sane. c \<noteq> CHR '':'' \<and> \<not> is_line_terminator c"
proof -
  let ?us = "map (sanitizeFilename L) segs"
  have us1: "sanitizeFilename L u = u" if "u \<in> set ?us" for u
  proof -
    from that obtain t where "t \<in> set segs" "u = sanitizeFilename L t" by auto
    with st show ?thesis by (simp add: stable_segment_def Let_def)
  qed
  have us2: "c \<noteq> CHR '':'' \<and> c \<noteq> CHR ''/'' \<and> \<not> is_line_terminator c"
    if "u \<in> set ?us" "c \<in> set u" for u c
  proof -
    from that obtain t where "t \<in> set segs" "u = sanitizeFilename L t" by auto
    with st that(2) show ?thesis by (simp add: stable_segment_def Let_def list_all_iff)
  qed
  have ns: "\<forall>u \<in> set ?us. CHR ''/'' \<notin> set u" using us2 by blast
  from ne have une: "?us \<noteq> []" by simp
  have sp: "split_on CHR ''/'' (join [CHR ''/''] ?us) = ?us"
    by (rule split_on_join [OF une ns])
  have "set (split_on CHR ''/'' (collapse_slashes (join [CHR ''/''] ?us)))
          \<subseteq> set (split_on CHR ''/'' (join [CHR ''/''] ?us))"
    by (rule set_split_on_collapse)
  then have sub: "set (split_on CHR ''/'' sane) \<subseteq> set ?us"
    unfolding sane_def sp .
  have "map (sanitizeFilename L) (split_on CHR ''/'' sane) = split_on CHR ''/'' sane"
  proof (rule map_idI)
    fix v assume "v \<in> set (split_on CHR ''/'' sane)"
    with sub have "v \<in> set ?us" by blast
    then show "sanitizeFilename L v = v" by (rule us1)
  qed
  then have "collapse_slashes (join ''/'' (map (sanitizeFilename L) (split_on CHR ''/'' sane)))
             = collapse_slashes (join [CHR ''/''] (split_on CHR ''/'' sane))" by simp
  also have "\<dots> = collapse_slashes sane" by (simp only: join_split_on)
  also have "\<dots> = sane" unfolding sane_def by (rule collapse_slashes_idem)
  finally show "collapse_slashes (join ''/'' (map (sanitizeFilename L) (split_on CHR ''/'' sane))) = sane" .
  have "set sane \<subseteq> set (join [CHR ''/''] ?us)" unfolding sane_def by (rule set_collapse_slashes)
  also have "\<dots> \<subseteq> set [CHR ''/''] \<union> (\<Union>u \<in> set ?us. set u)" by (rule set_join)
  finally have incl: "set sane \<subseteq> set [CHR ''/''] \<union> (\<Union>u \<in> set ?us. set u)" .
  show "\<forall>c \<in> set sane. c \<noteq> CHR '':'' \<and> \<not> is_line_terminator c"
  proof
    fix c assume "c \<in> set sane"
    with incl have "c = CHR ''/'' \<or> (\<exists>u \<in> set ?us. c \<in> set u)" by auto
    then show "c \<noteq> CHR '':'' \<and> \<not> is_line_terminator c"
    proof
      assume "c = CHR ''/''"
      then show ?thesis by (simp add: is_line_terminator_def)
    next
      assume "\<exists>u \<in> set ?us. c \<in> set u"
      then obtain u where "u \<in> set ?us" "c \<in> set u" by blast
      from us2 [OF this] show ?thesis by simp
    qed
  qed
qed

lemma collapse_slashes_append_word:
  "\<forall>c \<in> set nm. c \<noteq> CHR ''/'' \<Longrightarrow> collapse_slashes (nm @ CHR '':'' # s) = nm @ CHR '':'' # collapse_slashes s"
  by (induction nm) (simp_all add: collapse_slashes_Cons)

lemma sanitizeString_fixed:
  assumes nm: "nm \<noteq> []" "\<forall>c \<in> set nm. is_word_char c"
      and fx: "collapse_slashes (join ''/'' (map (sanitizeFilename L) (split_on CHR ''/'' sane))) = sane"
      and cl: "collapse_slashes sane = sane"
      and ch: "\<forall>c \<in> set sane. c \<noteq> CHR '':'' \<and> \<not> is_line_terminator c"
  shows "sanitizeString L (nm @ '':'' @ sane) = Inr (nm @ '':'' @ sane)"
proof -
  have ns: "\<forall>c \<in> set nm. c \<noteq> CHR ''/''" using nm(2) by auto
  have c: "collapse_slashes (nm @ '':'' @ sane) = nm @ '':'' @ sane"
    using collapse_slashes_append_word [OF ns, of sane] cl by simp
  have tw: "takeWhile is_word_char (nm @ '':'' @ sane) = nm"
    using nm(2) by (simp add: takeWhile_append2)
  have dw: "dropWhile is_word_char (nm @ '':'' @ sane) = '':'' @ sane"
    using nm(2) by (simp add: dropWhile_append2)
  have d2: "dropWhile (\<lambda>c. c = CHR '':'') sane = sane"
    using ch by (cases sane) auto
  have t2: "takeWhile (\<lambda>c. \<not> is_line_terminator c) sane = sane"
    using ch by (simp add: takeWhile_eq_all_conv)
  have "match_address (nm @ '':'' @ sane) = Some (nm, sane)"
    unfolding match_address_def tw dw using nm(1) d2 t2 by simp
  then show ?thesis unfolding sanitizeString_def c using fx by simp
qed

text \<open>
  Claim C8, amended. \<^verbatim>\<open>sanitize(sanitize(x))\<close> equals \<^verbatim>\<open>sanitize(x)\<close> for every valid address
  \<open>x\<close> each of whose path segments is sanitized by the filename sanitizer to a name that
  the sanitizer leaves unchanged and that holds no colon, slash or line terminator. The
  parsing of the prefix and the colons, the splitting, the joining and the collapsing of
  slashes that \<^verbatim>\<open>sanitize\<close> does itself are idempotent.
\<close>

theorem sanitize_idempotent_on_stable:
  assumes va: "valid_address x"
      and st: "\<forall>t \<in> set (address_segments x). stable_segment L t"
  shows "\<exists>y. sanitizeString L x = Inr y \<and> sanitizeString L y = Inr y"
proof -
  from va obtain nm str where m: "match_address (collapse_slashes x) = Some (nm, str)"
    using match_address_None_iff [of x] by (cases "match_address (collapse_slashes x)") auto
  let ?segs = "split_on CHR ''/'' str"
  let ?sane = "collapse_slashes (join ''/'' (map (sanitizeFilename L) ?segs))"
  from m have y: "sanitizeString L x = Inr (nm @ '':'' @ ?sane)"
    by (simp add: sanitizeString_def Let_def)
  from m have nmd: "nm = takeWhile is_word_char (collapse_slashes x)" "nm \<noteq> []"
    by (auto simp: match_address_def Let_def split: if_splits)
  then have nmw: "\<forall>c \<in> set nm. is_word_char c" by (auto dest: set_takeWhileD)
  from st m have st': "\<forall>t \<in> set ?segs. stable_segment L t" by (simp add: address_segments_def)
  have ne: "?segs \<noteq> []" by simp
  note sf = sane_fixed [OF st' ne]
  have "sanitizeString L (nm @ '':'' @ ?sane) = Inr (nm @ '':'' @ ?sane)"
    by (rule sanitizeString_fixed [OF nmd(2) nmw sf(1) _ sf(2)]) simp
  with y show ?thesis by simp
qed

lemmas npm_defs =
  sanitizeFilename_npm_def illegal_char_def control_char_def only_dots_def windows_reserved_def
  trim_trailing_def lower_char_def is_digit_def

text \<open>An address with two colons, a double slash and an illegal character.\<close>

theorem sanitize_idempotent_on_stable_witness:
  "valid_address ''home-dir::/fooo//b?r''
   \<and> list_all (stable_segment sample_lib) (address_segments ''home-dir::/fooo//b?r'')
   \<and> sanitizeString sample_lib ''home-dir::/fooo//b?r'' = Inr ''home-dir:/fooo/br''
   \<and> sanitizeString sample_lib ''home-dir:/fooo/br'' = Inr ''home-dir:/fooo/br''"
proof -
  have v: "valid_address ''home-dir::/fooo//b?r''"
    by (simp add: valid_address_iff is_word_char_def)
  have l: "list_all (stable_segment sample_lib) (address_segments ''home-dir::/fooo//b?r'')"
    by code_simp
  then have s: "\<forall>t \<in> set (address_segments ''home-dir::/fooo//b?r''). stable_segment sample_lib t"
    by (simp only: list_all_iff)
  have e: "sanitizeString sample_lib ''home-dir::/fooo//b?r'' = Inr ''home-dir:/fooo/br''"
    by code_simp
  from sanitize_idempotent_on_stable [OF v s] obtain y where
    y: "sanitizeString sample_lib ''home-dir::/fooo//b?r'' = Inr y" "sanitizeString sample_lib y = Inr y"
    by blast
  from y(1) e have "y = ''home-dir:/fooo/br''" by (simp only: sum.inject)
  with y(2) have f: "sanitizeString sample_lib ''home-dir:/fooo/br'' = Inr ''home-dir:/fooo/br''"
    by (simp only:)
  from v l e f show ?thesis by (intro conjI)
qed

text \<open>
  Claim C8 as stated fails: with the package \<^verbatim>\<open>sanitize-filename\<close> the valid address
  \<^verbatim>\<open>home:/con \<close> (ending in a space) is sanitized to \<^verbatim>\<open>home:/con\<close>, and that to \<^verbatim>\<open>home:/\<close>.
  The package removes a reserved device name before it trims trailing spaces, so the
  segment \<^verbatim>\<open>con \<close> becomes \<^verbatim>\<open>con\<close>, which a second pass removes.
\<close>

theorem sanitize_not_idempotent:
  "valid_address ''home:/con ''
   \<and> sanitizeString sample_lib ''home:/con '' = Inr ''home:/con''
   \<and> sanitizeString sample_lib ''home:/con'' = Inr ''home:/''
   \<and> sanitizeFilename sample_lib ''con '' = ''con''
   \<and> sanitizeFilename sample_lib ''con'' = []"
proof -
  have v: "valid_address ''home:/con ''" by (simp add: valid_address_iff is_word_char_def)
  have 1: "sanitizeString sample_lib ''home:/con '' = Inr ''home:/con''" by code_simp
  have 2: "sanitizeString sample_lib ''home:/con'' = Inr ''home:/''" by code_simp
  have 3: "sanitizeFilename sample_lib ''con '' = ''con''" by code_simp
  have 4: "sanitizeFilename sample_lib ''con'' = []" by code_simp
  from v 1 2 3 4 show ?thesis by (intro conjI)
qed

subsection \<open>Archives\<close>




subsection \<open>The walk\<close>









subsection \<open>The path of the archive\<close>

lemma split_on_append_name:
  "c \<notin> set b \<Longrightarrow>
   split_on c (a @ b) = butlast (split_on c a) @ [last (split_on c a) @ b]"
proof (induction a)
  case Nil
  then show ?case by (simp add: split_on_no_sep)
next
  case (Cons x a)
  obtain y ys where y: "split_on c a = y # ys" by (cases "split_on c a") auto
  show ?case
  proof (cases "x = c")
    case True
    with Cons y show ?thesis by simp
  next
    case False
    with Cons y show ?thesis by (cases ys) auto
  qed
qed

lemma last_split_on_append:
  "c \<notin> set b \<Longrightarrow> last (split_on c (a @ b)) = last (split_on c a) @ b"
  by (simp add: split_on_append_name)

lemma segments_append_name:
  assumes "CHR ''/'' \<notin> set b" "b \<noteq> []"
  shows "segments (a @ b) \<noteq> []"
proof -
  have "last (split_on CHR ''/'' (a @ b)) \<in> set (split_on CHR ''/'' (a @ b))"
    by (rule last_in_set) (rule split_on_not_Nil)
  moreover have "last (split_on CHR ''/'' (a @ b)) \<noteq> []"
    using last_split_on_append [OF assms(1), of a] assms(2) by simp
  ultimately show ?thesis unfolding segments_def by (auto simp: filter_empty_conv)
qed

lemma segments_zipPathOf: "segments (zipPathOf realPaths) \<noteq> []"
proof (cases realPaths)
  case Nil
  have "segments ([] @ ''undefined.zip'') \<noteq> []" by (rule segments_append_name) simp_all
  with Nil show ?thesis by (simp add: zipPathOf_def)
next
  case (Cons r rs)
  have "segments (r @ ''.zip'') \<noteq> []" by (rule segments_append_name) simp_all
  with Cons show ?thesis by (simp add: zipPathOf_def)
qed







end
